theory Spec2Isabelle
  imports Main
begin

section \<open>Data model (src/common/types.ts)\<close>

text \<open>
  Strings are lists of characters, each character standing for one code unit below 256.
  An optional field of a TypeScript interface is an \<open>option\<close>: \<open>None\<close> is
  \<^verbatim>\<open>undefined\<close>. The field \<^verbatim>\<open>id\<close> is written \<open>id'\<close>, since \<open>id\<close> is the
  identity function of HOL.
\<close>

datatype ResourceKind = File | Url

record MarkdownResource =
  id' :: string
  title :: string
  content :: string
  openedAt :: int
  kind :: ResourceKind
  path :: "string option"
  url :: "string option"
  finalUrl :: "string option"
  basePath :: "string option"
  baseUrl :: "string option"

record LinkFollowPayload =
  href :: string
  origin :: ResourceKind
  base :: "string option"

subsection \<open>JavaScript operators used by the renderer\<close>

text \<open>\<^verbatim>\<open>a ?? b\<close>: the left operand unless it is \<^verbatim>\<open>undefined\<close>.\<close>

definition nullish_or :: "'a option \<Rightarrow> 'a option \<Rightarrow> 'a option" where
  "nullish_or a b = (case a of None \<Rightarrow> b | Some x \<Rightarrow> Some x)"

text \<open>Truthiness of an optional string: \<^verbatim>\<open>undefined\<close> and the empty string are falsy.\<close>

definition truthy :: "string option \<Rightarrow> bool" where
  "truthy v = (case v of None \<Rightarrow> False | Some s \<Rightarrow> s \<noteq> [])"

text \<open>\<^verbatim>\<open>Array.prototype.findIndex\<close>: the first index whose element satisfies the
  predicate, \<open>-1\<close> when there is none.\<close>

definition findIndex :: "('a \<Rightarrow> bool) \<Rightarrow> 'a list \<Rightarrow> int" where
  "findIndex P xs =
     (if list_ex P xs then int (length (takeWhile (\<lambda>x. \<not> P x) xs)) else - 1)"

text \<open>\<^verbatim>\<open>xs[i]\<close> read out of range is \<^verbatim>\<open>undefined\<close>, also at a negative index.\<close>

definition js_index :: "'a list \<Rightarrow> int \<Rightarrow> 'a option" where
  "js_index xs i = (if 0 \<le> i \<and> i < int (length xs) then Some (xs ! nat i) else None)"

text \<open>\<^verbatim>\<open>Array.prototype.find\<close>.\<close>

definition js_find :: "('a \<Rightarrow> bool) \<Rightarrow> 'a list \<Rightarrow> 'a option" where
  "js_find P xs = List.find P xs"

section \<open>Tab store (src/renderer/App.tsx)\<close>

text \<open>
  The component state: the \<^verbatim>\<open>useState\<close> cells of \<^verbatim>\<open>App\<close>. Every handler is
  one atomic step on this record. A setter called with a value takes the value as it is at
  the call; a setter called with an updater queues it, and the queued updaters run after
  the synchronous statements of the handler, in the order of their calls.
\<close>

record AppState =
  tabs :: "MarkdownResource list"
  activeId :: "string option"
  status :: "string option"
  urlMode :: bool
  urlValue :: string

definition initialState :: AppState where
  "initialState = \<lparr>tabs = [], activeId = None, status = None, urlMode = False, urlValue = []\<rparr>"

text \<open>\<^verbatim>\<open>const activeTab = tabs.find((tab) => tab.id === activeId) ?? tabs[0] ?? null\<close>\<close>

definition activeTab :: "AppState \<Rightarrow> MarkdownResource option" where
  "activeTab s =
     nullish_or (js_find (\<lambda>tab. Some (id' tab) = activeId s) (tabs s)) (js_index (tabs s) 0)"

text \<open>The predicate given to \<^verbatim>\<open>findIndex\<close> in \<^verbatim>\<open>applyResource\<close>.\<close>

definition matchEntry :: "MarkdownResource \<Rightarrow> MarkdownResource \<Rightarrow> bool" where
  "matchEntry resource entry =
     (if kind entry \<noteq> kind resource then False
      else if kind entry = File then path entry = path resource
      else
        (let currentUrl = nullish_or (finalUrl entry) (url entry);
             incomingUrl = nullish_or (finalUrl resource) (url resource)
         in if truthy currentUrl \<and> truthy incomingUrl then currentUrl = incomingUrl
            else False))"

text \<open>
  \<^verbatim>\<open>applyResource\<close>. The variable \<^verbatim>\<open>resolvedId\<close> starts as \<^verbatim>\<open>resource.id\<close> and is
  reassigned only inside the updater given to \<^verbatim>\<open>setTabs\<close>, where it names the entry
  written at \<^verbatim>\<open>matchIndex\<close>. That updater is queued, while
  \<^verbatim>\<open>setActiveId(resolvedId)\<close> takes the value at the call: the id of the incoming
  resource.
\<close>

definition applyResource :: "MarkdownResource \<Rightarrow> AppState \<Rightarrow> AppState" where
  "applyResource resource s =
     (let resolvedId = id' resource;
          prev = tabs s;
          matchIndex = findIndex (matchEntry resource) prev;
          next =
            (if 0 \<le> matchIndex
             then prev[nat matchIndex := resource\<lparr>id' := id' (prev ! nat matchIndex)\<rparr>]
             else prev @ [resource])
      in s\<lparr>tabs := next, activeId := Some resolvedId, status := None\<rparr>)"

text \<open>\<^verbatim>\<open>addResource\<close>: one resource or an array of them, applied in order.\<close>

fun addResource :: "MarkdownResource list \<Rightarrow> AppState \<Rightarrow> AppState" where
  "addResource [] s = s"
| "addResource (item # rest) s = addResource rest (applyResource item s)"

definition closeTab :: "string \<Rightarrow> AppState \<Rightarrow> AppState" where
  "closeTab i s =
     (let prev = tabs s;
          index = findIndex (\<lambda>tab. id' tab = i) prev;
          next = (if index = - 1 then prev else filter (\<lambda>tab. id' tab \<noteq> i) prev);
          fallback =
            (if index = - 1 then None
             else map_option id'
                    (nullish_or (js_index next index)
                       (nullish_or (js_index next (index - 1)) (js_index next 0))))
      in s\<lparr>tabs := next,
           activeId := (if activeId s = Some i then fallback else activeId s)\<rparr>)"

text \<open>A click on a tab of the strip: \<^verbatim>\<open>onClick={() => setActiveId(tab.id)}\<close>.\<close>

definition setActive :: "string \<Rightarrow> AppState \<Rightarrow> AppState" where
  "setActive i s = s\<lparr>activeId := Some i\<rparr>"

datatype StoreOp = Upsert MarkdownResource | Close string | SetActive string

fun applyOp :: "StoreOp \<Rightarrow> AppState \<Rightarrow> AppState" where
  "applyOp (Upsert r) s = applyResource r s"
| "applyOp (Close i) s = closeTab i s"
| "applyOp (SetActive i) s = setActive i s"

fun runOps :: "StoreOp list \<Rightarrow> AppState \<Rightarrow> AppState" where
  "runOps [] s = s"
| "runOps (op # ops) s = runOps ops (applyOp op s)"

subsection \<open>Identity of a document\<close>

text \<open>The identity of a document, in the spec's words: the path of a file, the final URL
  of a remote document if it is known, else the URL that was asked for.\<close>

definition identity :: "MarkdownResource \<Rightarrow> string option" where
  "identity r = (case kind r of File \<Rightarrow> path r | Url \<Rightarrow> nullish_or (finalUrl r) (url r))"

definition same_identity :: "MarkdownResource \<Rightarrow> MarkdownResource \<Rightarrow> bool" where
  "same_identity e r = (kind e = kind r \<and> identity e = identity r)"

text \<open>A remote document has a usable identity when that URL is present and not empty.\<close>

definition identity_present :: "MarkdownResource \<Rightarrow> bool" where
  "identity_present r = (case kind r of File \<Rightarrow> True | Url \<Rightarrow> truthy (identity r))"

section \<open>Strings and patterns (src/renderer/App.tsx, src/main/index.ts)\<close>

text \<open>
  \<^verbatim>\<open>String.prototype.trim\<close> removes white space and line terminators at both ends;
  these are the ones among the code units below 256.
\<close>

definition isWhiteSpace :: "char \<Rightarrow> bool" where
  "isWhiteSpace c =
     (c \<in> set [CHR 0x09, CHR 0x0A, CHR 0x0B, CHR 0x0C, CHR 0x0D, CHR 0x20, CHR 0xA0])"

definition trim :: "string \<Rightarrow> string" where
  "trim s = rev (dropWhile isWhiteSpace (rev (dropWhile isWhiteSpace s)))"

fun startsWith :: "string \<Rightarrow> string \<Rightarrow> bool" where
  "startsWith s [] = True"
| "startsWith [] (p # ps) = False"
| "startsWith (c # cs) (p # ps) = (c = p \<and> startsWith cs ps)"

definition endsWith :: "string \<Rightarrow> string \<Rightarrow> bool" where
  "endsWith s e = startsWith (rev s) (rev e)"

text \<open>\<^verbatim>\<open>String.prototype.toLowerCase\<close> on code units below 256: the letters A to Z and the
  capital letters of Latin-1.\<close>

definition latin1Upper :: string where
  "latin1Upper =
     [CHR 0xC0, CHR 0xC1, CHR 0xC2, CHR 0xC3, CHR 0xC4, CHR 0xC5, CHR 0xC6,
      CHR 0xC7, CHR 0xC8, CHR 0xC9, CHR 0xCA, CHR 0xCB, CHR 0xCC, CHR 0xCD,
      CHR 0xCE, CHR 0xCF, CHR 0xD0, CHR 0xD1, CHR 0xD2, CHR 0xD3, CHR 0xD4,
      CHR 0xD5, CHR 0xD6, CHR 0xD8, CHR 0xD9, CHR 0xDA, CHR 0xDB, CHR 0xDC,
      CHR 0xDD, CHR 0xDE]"

definition latin1Lower :: string where
  "latin1Lower =
     [CHR 0xE0, CHR 0xE1, CHR 0xE2, CHR 0xE3, CHR 0xE4, CHR 0xE5, CHR 0xE6,
      CHR 0xE7, CHR 0xE8, CHR 0xE9, CHR 0xEA, CHR 0xEB, CHR 0xEC, CHR 0xED,
      CHR 0xEE, CHR 0xEF, CHR 0xF0, CHR 0xF1, CHR 0xF2, CHR 0xF3, CHR 0xF4,
      CHR 0xF5, CHR 0xF6, CHR 0xF8, CHR 0xF9, CHR 0xFA, CHR 0xFB, CHR 0xFC,
      CHR 0xFD, CHR 0xFE]"

definition lowerChar :: "char \<Rightarrow> char" where
  "lowerChar c =
     (case map_of (zip (''ABCDEFGHIJKLMNOPQRSTUVWXYZ'' @ latin1Upper)
                       (''abcdefghijklmnopqrstuvwxyz'' @ latin1Lower)) c of
        Some l \<Rightarrow> l
      | None \<Rightarrow> c)"

definition toLowerCase :: "string \<Rightarrow> string" where
  "toLowerCase s = map lowerChar s"

text \<open>The \<^verbatim>\<open>i\<close> flag of a regular expression (without \<^verbatim>\<open>u\<close>) folds the letters A to Z
  only: a code unit above 127 never matches an ASCII letter.\<close>

definition foldCase :: "char \<Rightarrow> char" where
  "foldCase c =
     (case map_of (zip ''ABCDEFGHIJKLMNOPQRSTUVWXYZ'' ''abcdefghijklmnopqrstuvwxyz'') c of
        Some l \<Rightarrow> l
      | None \<Rightarrow> c)"

definition isAsciiLetter :: "char \<Rightarrow> bool" where
  "isAsciiLetter c = (foldCase c \<in> set ''abcdefghijklmnopqrstuvwxyz'')"

text \<open>\<^verbatim>\<open>/^https?:\/\//i\<close>\<close>

definition httpPattern :: "string \<Rightarrow> bool" where
  "httpPattern s =
     (startsWith (map foldCase s) ''http://'' \<or> startsWith (map foldCase s) ''https://'')"

text \<open>\<^verbatim>\<open>/^(https?:)?\/\//i\<close>\<close>

definition absoluteWebPattern :: "string \<Rightarrow> bool" where
  "absoluteWebPattern s = (startsWith s ''//'' \<or> httpPattern s)"

text \<open>\<^verbatim>\<open>/^[a-zA-Z]+:/i\<close>: one letter or more, then a colon. A colon is no letter, so the
  letters are the longest run of letters at the start.\<close>

definition schemePattern :: "string \<Rightarrow> bool" where
  "schemePattern s =
     (takeWhile isAsciiLetter s \<noteq> [] \<and> startsWith (dropWhile isAsciiLetter s) '':'')"

definition markdownExtensions :: "string list" where
  "markdownExtensions = [''.md'', ''.markdown'', ''.mdown'', ''.mkdn'', ''.mkd'', ''.mdx'']"

text \<open>\<^verbatim>\<open>s.split(c)[0]\<close>: the part of \<open>s\<close> before the first \<open>c\<close>.\<close>

definition splitFirst :: "char \<Rightarrow> string \<Rightarrow> string" where
  "splitFirst c s = takeWhile (\<lambda>x. x \<noteq> c) s"

definition isMarkdownLink :: "string \<Rightarrow> bool" where
  "isMarkdownLink hrefv =
     (let sanitized = splitFirst CHR ''?'' (splitFirst CHR ''#'' hrefv)
      in list_ex (\<lambda>ext. endsWith (toLowerCase sanitized) ext) markdownExtensions)"

text \<open>The same test in the main process, with the two splits in the other order.\<close>

definition isMarkdownPath :: "string \<Rightarrow> bool" where
  "isMarkdownPath target =
     (let normalized = splitFirst CHR ''#'' (splitFirst CHR ''?'' target)
      in list_ex (\<lambda>ext. endsWith (toLowerCase normalized) ext) markdownExtensions)"

definition normalizeUrl :: "string \<Rightarrow> string" where
  "normalizeUrl input = (if httpPattern input then input else ''https://'' @ input)"

section \<open>Link activation and the open commands (src/renderer/App.tsx)\<close>

text \<open>
  The host the renderer talks to: \<^verbatim>\<open>window.api\<close> and the \<^verbatim>\<open>URL\<close> constructor.
  A promise that rejects, or a constructor that throws, is \<open>Inl\<close> of the error message.
\<close>

record Host =
  openUrl :: "string \<Rightarrow> string + MarkdownResource"
  openReference :: "LinkFollowPayload \<Rightarrow> string + MarkdownResource"
  openExternal :: "string \<Rightarrow> string + unit"
  openFileDialog :: "string + MarkdownResource list"
  newURL :: "string \<Rightarrow> string \<Rightarrow> string + string"

text \<open>The calls made on \<^verbatim>\<open>window.api\<close>, in order.\<close>

datatype ApiCall =
  OpenUrl string
  | OpenReference LinkFollowPayload
  | OpenExternal string
  | OpenFileDialog

text \<open>The promise \<^verbatim>\<open>handleLinkActivation\<close> returns: resolved with the handled flag, or
  rejected.\<close>

datatype Outcome = Resolved bool | Rejected string

text \<open>The base a reference is resolved against.\<close>

definition urlBase :: "MarkdownResource \<Rightarrow> string option" where
  "urlBase tab = nullish_or (nullish_or (baseUrl tab) (finalUrl tab)) (url tab)"

definition referenceBase :: "MarkdownResource \<Rightarrow> string option" where
  "referenceBase tab = (if kind tab = File then basePath tab else urlBase tab)"

text \<open>\<^verbatim>\<open>trimmed.startsWith('http') ? trimmed : `https:${trimmed}`\<close>\<close>

definition absoluteUrl :: "string \<Rightarrow> string" where
  "absoluteUrl trimmed = (if startsWith trimmed ''http'' then trimmed else ''https:'' @ trimmed)"

text \<open>
  \<^verbatim>\<open>handleLinkActivation\<close>. The result is the outcome of the promise, the calls made and
  the component state afterwards; the awaited call and what follows it are one step.
\<close>

definition handleLinkActivation ::
  "Host \<Rightarrow> string \<Rightarrow> AppState \<Rightarrow> Outcome \<times> ApiCall list \<times> AppState" where
  "handleLinkActivation h hrefv s =
     (case activeTab s of
        None \<Rightarrow> (Resolved False, [], s)
      | Some tab \<Rightarrow>
          (let trimmed = trim hrefv in
           if trimmed = [] \<or> startsWith trimmed ''#'' then (Resolved False, [], s)
           else if absoluteWebPattern trimmed then
             (let absolute = absoluteUrl trimmed in
              if isMarkdownLink absolute then
                (case openUrl h absolute of
                   Inr resource \<Rightarrow> (Resolved True, [OpenUrl absolute], addResource [resource] s)
                 | Inl message \<Rightarrow> (Resolved True, [OpenUrl absolute], s\<lparr>status := Some message\<rparr>))
              else
                (case openExternal h absolute of
                   Inr u \<Rightarrow> (Resolved True, [OpenExternal absolute], s)
                 | Inl message \<Rightarrow> (Rejected message, [OpenExternal absolute], s)))
           else if schemePattern trimmed then
             (case openExternal h trimmed of
                Inr u \<Rightarrow> (Resolved True, [OpenExternal trimmed], s)
              | Inl message \<Rightarrow> (Rejected message, [OpenExternal trimmed], s))
           else if \<not> isMarkdownLink trimmed then
             (if kind tab = Url then
                (case urlBase tab of
                   None \<Rightarrow> (Resolved False, [], s)
                 | Some b \<Rightarrow>
                     if b = [] then (Resolved False, [], s)
                     else
                       (case newURL h trimmed b of
                          Inl message \<Rightarrow> (Rejected message, [], s)
                        | Inr destination \<Rightarrow>
                            (case openExternal h destination of
                               Inr u \<Rightarrow> (Resolved True, [OpenExternal destination], s)
                             | Inl message \<Rightarrow>
                                 (Rejected message, [OpenExternal destination], s))))
              else (Resolved False, [], s))
           else if \<not> truthy (referenceBase tab) then
             (Resolved True, [],
              s\<lparr>status := Some ''Unable to resolve markdown reference without a base path.''\<rparr>)
           else
             (let payload = \<lparr>href = trimmed, origin = kind tab, base = referenceBase tab\<rparr> in
              case openReference h payload of
                Inr resource \<Rightarrow> (Resolved True, [OpenReference payload], addResource [resource] s)
              | Inl message \<Rightarrow> (Resolved True, [OpenReference payload], s\<lparr>status := Some message\<rparr>))))"

text \<open>\<^verbatim>\<open>handleUrlSubmit\<close>\<close>

definition handleUrlSubmit :: "Host \<Rightarrow> AppState \<Rightarrow> ApiCall list \<times> AppState" where
  "handleUrlSubmit h s =
     (if trim (urlValue s) = [] then ([], s)
      else
        (let normalized = normalizeUrl (trim (urlValue s)) in
         case openUrl h normalized of
           Inr resource \<Rightarrow>
             ([OpenUrl normalized], (addResource [resource] s)\<lparr>urlMode := False, urlValue := []\<rparr>)
         | Inl message \<Rightarrow> ([OpenUrl normalized], s\<lparr>status := Some message\<rparr>)))"

text \<open>\<^verbatim>\<open>handleOpenFile\<close>\<close>

definition handleOpenFile :: "Host \<Rightarrow> AppState \<Rightarrow> ApiCall list \<times> AppState" where
  "handleOpenFile h s =
     (case openFileDialog h of
        Inr resources \<Rightarrow>
          ([OpenFileDialog], if resources \<noteq> [] then addResource resources s else s)
      | Inl message \<Rightarrow> ([OpenFileDialog], s\<lparr>status := Some message\<rparr>))"

text \<open>The messages of the main process the renderer subscribes to
  (\<^verbatim>\<open>onResourceOpened\<close>, \<^verbatim>\<open>onResourceError\<close>).\<close>

datatype IpcMessage = ResourceOpened MarkdownResource | ResourceError string

fun onMessage :: "IpcMessage \<Rightarrow> AppState \<Rightarrow> AppState" where
  "onMessage (ResourceOpened resource) s = addResource [resource] s"
| "onMessage (ResourceError message) s = s\<lparr>status := Some message\<rparr>"

section \<open>Launch arguments (src/main/index.ts)\<close>

text \<open>
  What the main process asks of its host: the packaging flag, the file system, the
  \<^verbatim>\<open>path\<close> module, \<^verbatim>\<open>fetch\<close>, the \<^verbatim>\<open>URL\<close> parser, and the generators
  \<^verbatim>\<open>randomUUID\<close> and \<^verbatim>\<open>Date.now\<close>, whose \<open>n\<close>-th values are \<open>randomUUID h n\<close> and
  \<open>dateNow h n\<close>. A rejected promise or a thrown error is \<open>Inl\<close> of its message; a
  response comes with its body read.
\<close>

record Response =
  ok :: bool
  statusCode :: nat
  statusText :: string
  responseUrl :: string
  responseText :: string

record ParsedUrl =
  pathname :: string
  host :: string

record MainHost =
  isPackaged :: bool
  readFile :: "string \<Rightarrow> string + string"
  pathResolve :: "string \<Rightarrow> string"
  pathBasename :: "string \<Rightarrow> string"
  pathDirname :: "string \<Rightarrow> string"
  fetch :: "string \<Rightarrow> string + Response"
  parseUrl :: "string \<Rightarrow> string + ParsedUrl"
  randomUUID :: "nat \<Rightarrow> string"
  dateNow :: "nat \<Rightarrow> int"

text \<open>The decimal digits of a number, as a template literal prints it.\<close>

fun showNat :: "nat \<Rightarrow> string" where
  "showNat n =
     (if n < 10 then [''0123456789'' ! n]
      else showNat (n div 10) @ [''0123456789'' ! (n mod 10)])"

text \<open>\<^verbatim>\<open>s.split(c)\<close>\<close>

fun split :: "char \<Rightarrow> string \<Rightarrow> string list" where
  "split c [] = [[]]"
| "split c (x # xs) =
     (if x = c then [] # split c xs
      else (case split c xs of [] \<Rightarrow> [[x]] | seg # segs \<Rightarrow> (x # seg) # segs))"

definition readMarkdownFile :: "MainHost \<Rightarrow> nat \<Rightarrow> string \<Rightarrow> string + MarkdownResource" where
  "readMarkdownFile h n targetPath =
     (let absolute = pathResolve h targetPath in
      case readFile h absolute of
        Inl message \<Rightarrow> Inl message
      | Inr text \<Rightarrow>
          Inr \<lparr>id' = randomUUID h n, title = pathBasename h absolute, content = text,
               openedAt = dateNow h n, kind = File, path = Some absolute, url = None,
               finalUrl = None, basePath = Some (pathDirname h absolute), baseUrl = None\<rparr>)"

definition fetchMarkdownUrl :: "MainHost \<Rightarrow> nat \<Rightarrow> string \<Rightarrow> string + MarkdownResource" where
  "fetchMarkdownUrl h n targetUrl =
     (case fetch h targetUrl of
        Inl message \<Rightarrow> Inl message
      | Inr response \<Rightarrow>
          if \<not> ok response then
            Inl (''Failed to load '' @ targetUrl @ '': '' @ showNat (statusCode response) @ '' ''
                 @ statusText response)
          else
            (let text = responseText response;
                 final = (if responseUrl response \<noteq> [] then responseUrl response else targetUrl)
             in case parseUrl h final of
                  Inl message \<Rightarrow> Inl message
                | Inr parsed \<Rightarrow>
                    (let segments = filter (\<lambda>seg. seg \<noteq> []) (split CHR ''/'' (pathname parsed));
                         name = (if segments \<noteq> [] then last segments else host parsed)
                     in Inr \<lparr>id' = randomUUID h n, title = name, content = text,
                             openedAt = dateNow h n, kind = Url, path = None,
                             url = Some targetUrl, finalUrl = Some final, basePath = None,
                             baseUrl = Some final\<rparr>)))"

text \<open>The handler of \<^verbatim>\<open>resource:open-url\<close>, which serves \<^verbatim>\<open>window.api.openUrl\<close>.\<close>

definition resourceOpenUrl :: "MainHost \<Rightarrow> nat \<Rightarrow> string \<Rightarrow> string + MarkdownResource" where
  "resourceOpenUrl h n u =
     (if \<not> httpPattern u then Inl ''Only http(s) urls are supported''
      else fetchMarkdownUrl h n u)"

text \<open>The module state of the main process, and the messages sent to the renderer.\<close>

datatype Loader = FetchMarkdownUrl string | ReadMarkdownFile string

record MainState =
  mainWindow :: bool
  rendererReady :: bool
  pendingResources :: "MarkdownResource list"
  sent :: "IpcMessage list"
  started :: "Loader list"

definition publishResource :: "MarkdownResource \<Rightarrow> MainState \<Rightarrow> MainState" where
  "publishResource resource m =
     (if rendererReady m \<and> mainWindow m then m\<lparr>sent := sent m @ [ResourceOpened resource]\<rparr>
      else m\<lparr>pendingResources := pendingResources m @ [resource]\<rparr>)"

text \<open>\<^verbatim>\<open>deliverResource\<close>, given the result of its loader.\<close>

definition deliverResource :: "string + MarkdownResource \<Rightarrow> MainState \<Rightarrow> MainState" where
  "deliverResource loaded m =
     (case loaded of
        Inr resource \<Rightarrow> publishResource resource m
      | Inl message \<Rightarrow>
          if mainWindow m then m\<lparr>sent := sent m @ [ResourceError message]\<rparr> else m)"

text \<open>
  The body of the \<^verbatim>\<open>forEach\<close> of \<^verbatim>\<open>parseArgTargets\<close>. Each load is taken to finish
  before the next argument is looked at; the \<open>n\<close>-th load started draws the \<open>n\<close>-th values
  of the generators.
\<close>

definition deliverArg :: "MainHost \<Rightarrow> string \<Rightarrow> MainState \<Rightarrow> MainState" where
  "deliverArg h arg m =
     (if httpPattern arg then
        deliverResource (fetchMarkdownUrl h (length (started m)) arg)
          (m\<lparr>started := started m @ [FetchMarkdownUrl arg]\<rparr>)
      else if isMarkdownPath arg then
        deliverResource (readMarkdownFile h (length (started m)) arg)
          (m\<lparr>started := started m @ [ReadMarkdownFile arg]\<rparr>)
      else m)"

fun deliverArgs :: "MainHost \<Rightarrow> string list \<Rightarrow> MainState \<Rightarrow> MainState" where
  "deliverArgs h [] m = m"
| "deliverArgs h (arg # rest) m = deliverArgs h rest (deliverArg h arg m)"

definition sliceFrom :: "MainHost \<Rightarrow> nat" where
  "sliceFrom h = (if isPackaged h then 1 else 2)"

definition parseArgTargets :: "MainHost \<Rightarrow> string list \<Rightarrow> MainState \<Rightarrow> MainState" where
  "parseArgTargets h argv m =
     (let candidates = filter (\<lambda>arg. \<not> startsWith arg ''--'') (drop (sliceFrom h) argv)
      in deliverArgs h candidates m)"

text \<open>In the words of the spec: an existing path is one the host can read.\<close>

definition pathExists :: "MainHost \<Rightarrow> string \<Rightarrow> bool" where
  "pathExists h target = (case readFile h (pathResolve h target) of Inl e \<Rightarrow> False | Inr c \<Rightarrow> True)"

subsection \<open>Example documents\<close>

definition fileDoc :: "string \<Rightarrow> string \<Rightarrow> string \<Rightarrow> MarkdownResource" where
  "fileDoc i p c =
     \<lparr>id' = i, title = p, content = c, openedAt = 0, kind = File, path = Some p,
      url = None, finalUrl = None, basePath = Some ''/docs'', baseUrl = None\<rparr>"

definition urlDoc :: "string \<Rightarrow> string \<Rightarrow> string \<Rightarrow> MarkdownResource" where
  "urlDoc i u c =
     \<lparr>id' = i, title = u, content = c, openedAt = 0, kind = Url, path = None,
      url = Some u, finalUrl = Some u, basePath = None, baseUrl = Some u\<rparr>"

text \<open>A file document without a base directory.\<close>

definition bareFileDoc :: "string \<Rightarrow> string \<Rightarrow> string \<Rightarrow> MarkdownResource" where
  "bareFileDoc i p c =
     \<lparr>id' = i, title = p, content = c, openedAt = 0, kind = File, path = Some p,
      url = None, finalUrl = None, basePath = None, baseUrl = None\<rparr>"

definition storeOf :: "MarkdownResource list \<Rightarrow> string option \<Rightarrow> AppState" where
  "storeOf ts a = \<lparr>tabs = ts, activeId = a, status = None, urlMode = False, urlValue = []\<rparr>"

subsection \<open>Deduplication\<close>

text \<open>The pair a tab is deduplicated by.\<close>

definition identity_key :: "MarkdownResource \<Rightarrow> ResourceKind \<times> string option" where
  "identity_key r = (kind r, identity r)"

text \<open>
  A resource has exactly the identity fields of its kind populated: a file has a path and
  no URL, a remote document has no path and a URL (the final URL if present, else the URL
  asked for). A field is populated when it holds a non-empty string, which is what the
  source tests (\<^verbatim>\<open>currentUrl && incomingUrl\<close>).
\<close>

definition identity_populated :: "MarkdownResource \<Rightarrow> bool" where
  "identity_populated r =
     (case kind r of
        File \<Rightarrow> truthy (path r) \<and> url r = None \<and> finalUrl r = None
      | Url \<Rightarrow> path r = None \<and> truthy (nullish_or (finalUrl r) (url r)))"

definition upsert_populated :: "StoreOp \<Rightarrow> bool" where
  "upsert_populated op =
     (case op of Upsert r \<Rightarrow> identity_populated r | Close i \<Rightarrow> True | SetActive i \<Rightarrow> True)"

definition dedup_inv :: "AppState \<Rightarrow> bool" where
  "dedup_inv s = (distinct (map identity_key (tabs s)) \<and> list_all identity_present (tabs s))"

text \<open>
  An example host. One remote document can be fetched, every other fetch fails; a
  relative reference is resolved by replacing the last path segment of the base.
\<close>

definition exampleHost :: Host where
  "exampleHost =
     \<lparr>openUrl = (\<lambda>u. if u = ''https://example.com/readme.md''
                      then Inr (urlDoc ''N'' u ''# Readme'')
                      else Inl (''Failed to load '' @ u)),
      openReference = (\<lambda>p. Inl ''Missing file''),
      openExternal = (\<lambda>u. Inr ()),
      openFileDialog = Inl ''dialog failed'',
      newURL = (\<lambda>r b. Inr (rev (dropWhile (\<lambda>c. c \<noteq> CHR ''/'') (rev b)) @ r))\<rparr>"

text \<open>An example host of the main process, on a disk without markdown files.\<close>

definition exampleMainHost :: MainHost where
  "exampleMainHost =
     \<lparr>isPackaged = True,
      readFile = (\<lambda>p. Inl (''ENOENT: no such file or directory, open '' @ p)),
      pathResolve = (\<lambda>p. ''/home/user/'' @ p),
      pathBasename = (\<lambda>p. rev (takeWhile (\<lambda>c. c \<noteq> CHR ''/'') (rev p))),
      pathDirname = (\<lambda>p. rev (drop 1 (dropWhile (\<lambda>c. c \<noteq> CHR ''/'') (rev p)))),
      fetch = (\<lambda>u. Inl ''fetch failed''),
      parseUrl = (\<lambda>u. Inl ''Invalid URL''),
      randomUUID = (\<lambda>n. ''uuid-'' @ showNat n),
      dateNow = (\<lambda>n. int n)\<rparr>"

text \<open>The main process once its window is shown and the renderer has signalled ready.\<close>

definition readyMain :: MainState where
  "readyMain =
     \<lparr>mainWindow = True, rendererReady = True, pendingResources = [], sent = [], started = []\<rparr>"

text \<open>A store showing an earlier error, with a URL typed into the form.\<close>

definition staleStore :: "string \<Rightarrow> AppState" where
  "staleStore typed =
     \<lparr>tabs = [fileDoc ''A'' ''/docs/a.md'' ''a''], activeId = Some ''A'',
      status = Some ''earlier error'', urlMode = True, urlValue = typed\<rparr>"

section \<open>Facts about the array operations\<close>

lemma takeWhile_not_first:
  "list_ex P xs \<Longrightarrow>
     length (takeWhile (\<lambda>x. \<not> P x) xs) < length xs \<and>
     P (xs ! length (takeWhile (\<lambda>x. \<not> P x) xs))"
  by (induction xs) auto

lemma takeWhile_not_before:
  "j < length (takeWhile (\<lambda>x. \<not> P x) xs) \<Longrightarrow> \<not> P (xs ! j)"
proof (induction xs arbitrary: j)
  case Nil
  then show ?case by simp
next
  case (Cons x xs)
  then show ?case by (cases j) (auto split: if_splits)
qed

lemma findIndex_none: "(findIndex P xs = - 1) = (\<not> list_ex P xs)"
  by (simp add: findIndex_def)

lemma findIndex_neg: "(0 \<le> findIndex P xs) = list_ex P xs"
  by (simp add: findIndex_def)

lemma findIndex_first:
  assumes "list_ex P xs"
  shows "nat (findIndex P xs) < length xs"
    and "P (xs ! nat (findIndex P xs))"
    and "\<forall>j < nat (findIndex P xs). \<not> P (xs ! j)"
proof -
  have n: "nat (findIndex P xs) = length (takeWhile (\<lambda>x. \<not> P x) xs)"
    using assms by (simp add: findIndex_def)
  show "nat (findIndex P xs) < length xs"
    using takeWhile_not_first[OF assms] n by simp
  show "P (xs ! nat (findIndex P xs))"
    using takeWhile_not_first[OF assms] n by simp
  show "\<forall>j < nat (findIndex P xs). \<not> P (xs ! j)"
    using takeWhile_not_before[of _ P xs] n by simp
qed

lemma findIndex_eq:
  assumes "i < length xs" "P (xs ! i)" "\<forall>j<i. \<not> P (xs ! j)"
  shows "findIndex P xs = int i"
proof -
  have ex: "list_ex P xs" using assms(1,2) by (auto simp: list_ex_iff)
  note f = findIndex_first[OF ex]
  have "\<not> nat (findIndex P xs) < i" using f(2) assms(3) by blast
  moreover have "\<not> i < nat (findIndex P xs)" using f(3) assms(2) by blast
  ultimately have "nat (findIndex P xs) = i" by simp
  moreover have "0 \<le> findIndex P xs" using ex by (simp add: findIndex_neg)
  ultimately show ?thesis by simp
qed

section \<open>Properties of the tab store\<close>

lemma matchEntry_iff: "matchEntry r e = (same_identity e r \<and> identity_present r)"
proof (cases "kind e")
  case File
  then show ?thesis
    by (cases "kind r") (simp_all add: matchEntry_def same_identity_def identity_present_def identity_def)
next
  case Url
  show ?thesis
  proof (cases "kind r")
    case File
    with Url show ?thesis by (simp add: matchEntry_def same_identity_def)
  next
    case u: Url
    define cu where "cu = nullish_or (finalUrl e) (url e)"
    define iu where "iu = nullish_or (finalUrl r) (url r)"
    have m: "matchEntry r e = (if truthy cu \<and> truthy iu then cu = iu else False)"
      using Url u by (simp add: matchEntry_def Let_def cu_def iu_def)
    have s: "same_identity e r = (cu = iu)"
      using Url u by (simp add: same_identity_def identity_def cu_def iu_def)
    have p: "identity_present r = truthy iu"
      using u by (simp add: identity_present_def identity_def iu_def)
    show ?thesis unfolding m s p by (cases "cu = iu") simp_all
  qed
qed

lemma applyResource_match:
  assumes "list_ex (matchEntry r) (tabs s)"
  shows "applyResource r s =
     s\<lparr>tabs := (tabs s)[nat (findIndex (matchEntry r) (tabs s)) :=
                 r\<lparr>id' := id' (tabs s ! nat (findIndex (matchEntry r) (tabs s)))\<rparr>],
       activeId := Some (id' r),
       status := None\<rparr>"
  using assms by (simp add: applyResource_def Let_def findIndex_neg)

lemma applyResource_nomatch:
  assumes "\<not> list_ex (matchEntry r) (tabs s)"
  shows "applyResource r s =
     s\<lparr>tabs := tabs s @ [r], activeId := Some (id' r), status := None\<rparr>"
  using assms by (simp add: applyResource_def Let_def findIndex_neg)

lemma applyResource_status: "status (applyResource r s) = None"
  by (cases "list_ex (matchEntry r) (tabs s)")
     (simp_all add: applyResource_match applyResource_nomatch)

lemma applyResource_activeId: "activeId (applyResource r s) = Some (id' r)"
  by (simp add: applyResource_def Let_def)

text \<open>
  What an upsert does to the collection: a resource that has the kind and the identity of
  an open tab (for a remote document a URL that is present and not empty) overwrites the
  first such tab in place, under the stable id of that tab; any other resource is appended.
\<close>

lemma applyResource_tabs:
  "((\<exists>e \<in> set (tabs s). same_identity e r \<and> identity_present r) \<longrightarrow>
      (\<exists>i < length (tabs s).
         same_identity (tabs s ! i) r \<and>
         (\<forall>j < i. \<not> same_identity (tabs s ! j) r) \<and>
         tabs (applyResource r s) = (tabs s)[i := r\<lparr>id' := id' (tabs s ! i)\<rparr>])) \<and>
   (\<not> (\<exists>e \<in> set (tabs s). same_identity e r \<and> identity_present r) \<longrightarrow>
      tabs (applyResource r s) = tabs s @ [r])"
proof (intro conjI impI)
  assume "\<exists>e \<in> set (tabs s). same_identity e r \<and> identity_present r"
  then have ex: "list_ex (matchEntry r) (tabs s)"
    by (auto simp: list_ex_iff matchEntry_iff)
  define i where "i = nat (findIndex (matchEntry r) (tabs s))"
  note f = findIndex_first[OF ex, folded i_def]
  note a = applyResource_match[OF ex, folded i_def]
  have pres: "identity_present r" using f(2) by (simp add: matchEntry_iff)
  have "same_identity (tabs s ! i) r" using f(2) by (simp add: matchEntry_iff)
  moreover have "\<forall>j < i. \<not> same_identity (tabs s ! j) r"
    using f(3) pres by (simp add: matchEntry_iff)
  moreover have "tabs (applyResource r s) = (tabs s)[i := r\<lparr>id' := id' (tabs s ! i)\<rparr>]"
    by (simp add: a)
  ultimately show "\<exists>i < length (tabs s).
         same_identity (tabs s ! i) r \<and>
         (\<forall>j < i. \<not> same_identity (tabs s ! j) r) \<and>
         tabs (applyResource r s) = (tabs s)[i := r\<lparr>id' := id' (tabs s ! i)\<rparr>]"
    using f(1) by (intro exI[of _ i]) simp
next
  assume "\<not> (\<exists>e \<in> set (tabs s). same_identity e r \<and> identity_present r)"
  then have nex: "\<not> list_ex (matchEntry r) (tabs s)"
    by (auto simp: list_ex_iff matchEntry_iff)
  show "tabs (applyResource r s) = tabs s @ [r]" by (simp add: applyResource_nomatch[OF nex])
qed

text \<open>
  Claim C1. On a match the collection is updated as claimed, the selection is not. With
  \<open>a.md\<close> and \<open>b.md\<close> open under the stable ids \<open>A\<close> and \<open>B\<close> and \<open>A\<close> active,
  \<open>b.md\<close> is opened again and arrives under the fresh id \<open>X\<close>: the tab at index 1 takes
  the new content and keeps the id \<open>B\<close>, the length stays 2 and the status is cleared,
  but the active id becomes \<open>X\<close>, which no tab holds, instead of \<open>B\<close>. The tab shown is
  then the first one, \<open>a.md\<close>, not the one opened again.
\<close>

theorem applyResource_reopen_selects_incoming_id:
  "same_identity (fileDoc ''B'' ''/docs/b.md'' ''b'') (fileDoc ''X'' ''/docs/b.md'' ''new'') \<and>
   tabs (applyResource (fileDoc ''X'' ''/docs/b.md'' ''new'')
           (storeOf [fileDoc ''A'' ''/docs/a.md'' ''a'', fileDoc ''B'' ''/docs/b.md'' ''b''] (Some ''A'')))
     = [fileDoc ''A'' ''/docs/a.md'' ''a'', fileDoc ''B'' ''/docs/b.md'' ''new''] \<and>
   status (applyResource (fileDoc ''X'' ''/docs/b.md'' ''new'')
           (storeOf [fileDoc ''A'' ''/docs/a.md'' ''a'', fileDoc ''B'' ''/docs/b.md'' ''b''] (Some ''A'')))
     = None \<and>
   activeId (applyResource (fileDoc ''X'' ''/docs/b.md'' ''new'')
           (storeOf [fileDoc ''A'' ''/docs/a.md'' ''a'', fileDoc ''B'' ''/docs/b.md'' ''b''] (Some ''A'')))
     = Some ''X'' \<and>
   ''X'' \<notin> set (map id' (tabs (applyResource (fileDoc ''X'' ''/docs/b.md'' ''new'')
           (storeOf [fileDoc ''A'' ''/docs/a.md'' ''a'', fileDoc ''B'' ''/docs/b.md'' ''b''] (Some ''A''))))) \<and>
   activeTab (applyResource (fileDoc ''X'' ''/docs/b.md'' ''new'')
           (storeOf [fileDoc ''A'' ''/docs/a.md'' ''a'', fileDoc ''B'' ''/docs/b.md'' ''b''] (Some ''A'')))
     = Some (fileDoc ''A'' ''/docs/a.md'' ''a'')"
  by (simp add: storeOf_def fileDoc_def same_identity_def identity_def applyResource_def
        findIndex_def matchEntry_def activeTab_def js_find_def js_index_def nullish_or_def Let_def)

subsection \<open>Deduplication is an invariant\<close>

lemma identity_populated_present: "identity_populated r \<Longrightarrow> identity_present r"
  by (cases "kind r") (simp_all add: identity_populated_def identity_present_def identity_def)

lemma identity_id_update: "identity (r\<lparr>id' := x\<rparr>) = identity r"
  by (cases "kind r") (simp_all add: identity_def)

lemma identity_present_id_update:
  "identity_present (r\<lparr>id' := x\<rparr>) = identity_present r"
  by (cases "kind r") (simp_all add: identity_present_def identity_id_update)

lemma identity_key_eq: "(identity_key e = identity_key r) = same_identity e r"
  by (simp add: identity_key_def same_identity_def)

lemma applyResource_dedup_inv:
  assumes inv: "dedup_inv s" and pres: "identity_present r"
  shows "dedup_inv (applyResource r s)"
proof (cases "list_ex (matchEntry r) (tabs s)")
  case True
  define i where "i = nat (findIndex (matchEntry r) (tabs s))"
  note f = findIndex_first[OF True, folded i_def]
  have t: "tabs (applyResource r s) = (tabs s)[i := r\<lparr>id' := id' (tabs s ! i)\<rparr>]"
    by (simp add: applyResource_match[OF True, folded i_def])
  have same: "same_identity (tabs s ! i) r" using f(2) by (simp add: matchEntry_iff)
  have k: "identity_key (r\<lparr>id' := id' (tabs s ! i)\<rparr>) = identity_key (tabs s ! i)"
    using same by (simp add: identity_key_def same_identity_def identity_id_update)
  have "map identity_key (tabs (applyResource r s)) = map identity_key (tabs s)"
    using f(1) by (simp add: t map_update k list_update_same_conv)
  moreover have "identity_present (r\<lparr>id' := id' (tabs s ! i)\<rparr>)"
    using pres by (simp add: identity_present_id_update)
  then have "list_all identity_present (tabs (applyResource r s))"
    using inv set_update_subset_insert[of "tabs s" i]
    by (auto simp: t dedup_inv_def list_all_iff)
  ultimately show ?thesis using inv by (simp add: dedup_inv_def)
next
  case False
  have t: "tabs (applyResource r s) = tabs s @ [r]"
    by (simp add: applyResource_nomatch[OF False])
  have "identity_key r \<notin> set (map identity_key (tabs s))"
  proof
    assume "identity_key r \<in> set (map identity_key (tabs s))"
    then obtain e where e: "e \<in> set (tabs s)" "identity_key e = identity_key r" by auto
    then have "matchEntry r e" using pres by (simp add: matchEntry_iff identity_key_eq)
    with e(1) False show False by (auto simp: list_ex_iff)
  qed
  then show ?thesis using inv pres by (simp add: dedup_inv_def t)
qed

lemma closeTab_tabs:
  "tabs (closeTab i s) = filter (\<lambda>tab. id' tab \<noteq> i) (tabs s)"
proof (cases "list_ex (\<lambda>tab. id' tab = i) (tabs s)")
  case True
  then show ?thesis by (simp add: closeTab_def Let_def findIndex_none)
next
  case False
  then have "filter (\<lambda>tab. id' tab \<noteq> i) (tabs s) = tabs s"
    by (auto simp: list_ex_iff intro: filter_True)
  with False show ?thesis by (simp add: closeTab_def Let_def findIndex_none)
qed

lemma closeTab_dedup_inv: "dedup_inv s \<Longrightarrow> dedup_inv (closeTab i s)"
  by (simp add: dedup_inv_def closeTab_tabs distinct_map_filter list_all_iff)

lemma applyOp_dedup_inv:
  "dedup_inv s \<Longrightarrow> upsert_populated op \<Longrightarrow> dedup_inv (applyOp op s)"
proof (cases op)
  case (Upsert r)
  assume "dedup_inv s" "upsert_populated op"
  with Upsert show ?thesis
    by (simp add: upsert_populated_def applyResource_dedup_inv identity_populated_present)
next
  case (Close i)
  assume "dedup_inv s"
  with Close show ?thesis by (simp add: closeTab_dedup_inv)
next
  case (SetActive i)
  assume "dedup_inv s"
  with SetActive show ?thesis by (simp add: setActive_def dedup_inv_def)
qed

lemma runOps_dedup_inv:
  "dedup_inv s \<Longrightarrow> list_all upsert_populated ops \<Longrightarrow> dedup_inv (runOps ops s)"
  by (induction ops arbitrary: s) (simp_all add: applyOp_dedup_inv)

lemma initialState_dedup_inv: "dedup_inv initialState"
  by (simp add: dedup_inv_def initialState_def)

text \<open>
  Claim C2. Start from the empty collection and run any sequence of Upsert, Close and
  SetActive operations in which every upserted resource has exactly the identity fields of
  its kind populated. Then after every prefix of the sequence no two tabs have the same
  (kind, identity) pair.
\<close>

theorem runOps_one_tab_per_identity:
  assumes "list_all upsert_populated ops"
  shows "\<forall>n \<le> length ops.
           distinct (map identity_key (tabs (runOps (take n ops) initialState)))"
proof (intro allI impI)
  fix n
  have "list_all upsert_populated (take n ops)"
    using assms by (auto simp: list_all_iff dest: in_set_takeD)
  then have "dedup_inv (runOps (take n ops) initialState)"
    by (rule runOps_dedup_inv[OF initialState_dedup_inv])
  then show "distinct (map identity_key (tabs (runOps (take n ops) initialState)))"
    by (simp add: dedup_inv_def)
qed

theorem runOps_one_tab_per_identity_witness:
  "list_all upsert_populated
     [Upsert (fileDoc ''A'' ''/docs/a.md'' ''a''), Upsert (fileDoc ''B'' ''/docs/b.md'' ''b''),
      Upsert (fileDoc ''X'' ''/docs/a.md'' ''new''),
      Upsert (urlDoc ''U'' ''https://example.com/readme.md'' ''u''),
      Close ''B'', SetActive ''A''] \<and>
   distinct (map identity_key (tabs (runOps (take 3
     [Upsert (fileDoc ''A'' ''/docs/a.md'' ''a''), Upsert (fileDoc ''B'' ''/docs/b.md'' ''b''),
      Upsert (fileDoc ''X'' ''/docs/a.md'' ''new''),
      Upsert (urlDoc ''U'' ''https://example.com/readme.md'' ''u''),
      Close ''B'', SetActive ''A'']) initialState))) \<and>
   runOps (take 3
     [Upsert (fileDoc ''A'' ''/docs/a.md'' ''a''), Upsert (fileDoc ''B'' ''/docs/b.md'' ''b''),
      Upsert (fileDoc ''X'' ''/docs/a.md'' ''new''),
      Upsert (urlDoc ''U'' ''https://example.com/readme.md'' ''u''),
      Close ''B'', SetActive ''A'']) initialState
   = storeOf [fileDoc ''A'' ''/docs/a.md'' ''new'', fileDoc ''B'' ''/docs/b.md'' ''b''] (Some ''X'')"
proof -
  let ?ops = "[Upsert (fileDoc ''A'' ''/docs/a.md'' ''a''), Upsert (fileDoc ''B'' ''/docs/b.md'' ''b''),
      Upsert (fileDoc ''X'' ''/docs/a.md'' ''new''),
      Upsert (urlDoc ''U'' ''https://example.com/readme.md'' ''u''),
      Close ''B'', SetActive ''A'']"
  have h: "list_all upsert_populated ?ops"
    by (simp add: upsert_populated_def identity_populated_def fileDoc_def urlDoc_def
          truthy_def nullish_or_def)
  have d: "distinct (map identity_key (tabs (runOps (take 3 ?ops) initialState)))"
    using runOps_one_tab_per_identity[OF h, rule_format, of 3] by simp
  have e: "runOps (take 3 ?ops) initialState
     = storeOf [fileDoc ''A'' ''/docs/a.md'' ''new'', fileDoc ''B'' ''/docs/b.md'' ''b''] (Some ''X'')"
    by (simp add: take_Suc_conv_app_nth numeral_3_eq_3 initialState_def storeOf_def fileDoc_def
          applyResource_def findIndex_def matchEntry_def Let_def)
  show ?thesis using h d e by blast
qed

subsection \<open>Closing a tab\<close>

lemma filter_distinct_nth:
  assumes "distinct (map f xs)" "i < length xs"
  shows "filter (\<lambda>x. f x \<noteq> f (xs ! i)) xs = take i xs @ drop (Suc i) xs"
proof -
  let ?P = "\<lambda>x. f x \<noteq> f (xs ! i)"
  have d: "distinct (map f (take i xs @ xs ! i # drop (Suc i) xs))"
    by (metis assms(1) assms(2) id_take_nth_drop)
  have na: "f (xs ! i) \<notin> f ` set (take i xs)" using d by simp
  have nb: "f (xs ! i) \<notin> f ` set (drop (Suc i) xs)" using d by simp
  have a: "filter ?P (take i xs) = take i xs"
  proof (rule filter_True, rule ballI, rule notI)
    fix x assume "x \<in> set (take i xs)" "f x = f (xs ! i)"
    then have "f (xs ! i) \<in> f ` set (take i xs)" by (metis imageI)
    with na show False by (rule notE)
  qed
  have b: "filter ?P (drop (Suc i) xs) = drop (Suc i) xs"
  proof (rule filter_True, rule ballI, rule notI)
    fix x assume "x \<in> set (drop (Suc i) xs)" "f x = f (xs ! i)"
    then have "f (xs ! i) \<in> f ` set (drop (Suc i) xs)" by (metis imageI)
    with nb show False by (rule notE)
  qed
  have "filter ?P xs = filter ?P (take i xs @ xs ! i # drop (Suc i) xs)"
    by (rule arg_cong[OF id_take_nth_drop[OF assms(2)]])
  also have "\<dots> = filter ?P (take i xs) @ filter ?P (drop (Suc i) xs)" by simp
  finally show ?thesis by (simp only: a b)
qed

lemma closeTab_present:
  assumes "list_ex (\<lambda>tab. id' tab = a) (tabs s)"
  shows "closeTab a s =
     s\<lparr>tabs := filter (\<lambda>tab. id' tab \<noteq> a) (tabs s),
       activeId :=
         (if activeId s = Some a then
            map_option id'
              (nullish_or (js_index (filter (\<lambda>tab. id' tab \<noteq> a) (tabs s))
                             (findIndex (\<lambda>tab. id' tab = a) (tabs s)))
                 (nullish_or (js_index (filter (\<lambda>tab. id' tab \<noteq> a) (tabs s))
                                (findIndex (\<lambda>tab. id' tab = a) (tabs s) - 1))
                    (js_index (filter (\<lambda>tab. id' tab \<noteq> a) (tabs s)) 0)))
          else activeId s)\<rparr>"
  using assms by (simp add: closeTab_def Let_def findIndex_none)

lemma js_index_nat:
  "js_index xs (int i) = (if i < length xs then Some (xs ! i) else None)"
  by (simp add: js_index_def)

lemma js_index_pred:
  "js_index xs (int i - 1) = (if 0 < i \<and> i - 1 < length xs then Some (xs ! (i - 1)) else None)"
proof (cases i)
  case 0
  then show ?thesis by (simp add: js_index_def)
next
  case (Suc k)
  show ?thesis unfolding Suc by (simp add: js_index_def)
qed

lemma js_index_zero:
  "js_index xs 0 = (if xs \<noteq> [] then Some (xs ! 0) else None)"
  by (simp add: js_index_def)

lemma fallback_chain:
  "map_option f (nullish_or (js_index next (int i))
       (nullish_or (js_index next (int i - 1)) (js_index next 0)))
   = (if i < length next then Some (f (next ! i))
      else if 0 < i \<and> i - 1 < length next then Some (f (next ! (i - 1)))
      else if next \<noteq> [] then Some (f (next ! 0))
      else None)"
  by (simp only: js_index_nat js_index_pred js_index_zero) (simp add: nullish_or_def)

text \<open>
  Claim C3. Let the active tab be the one at index \<open>i\<close>, the first with its id. Closing it
  removes the entries with that id and keeps the others in their order. The new active tab
  is the entry at index \<open>i\<close> of the remaining list if there is one, else the entry at
  index \<open>i - 1\<close>, else the first remaining entry, else none: some remaining tab is
  active unless none remains. When the stable ids are pairwise distinct, as ids generated
  afresh for every fetched document are, exactly the closed entry is removed, so that
  closing the active tab of more than one leaves some tab active.
\<close>

theorem closeTab_active_fallback:
  assumes "i < length (tabs s)"
    and "id' (tabs s ! i) = a"
    and "\<forall>j < i. id' (tabs s ! j) \<noteq> a"
    and "activeId s = Some a"
  shows "(let next = tabs (closeTab a s);
              active = activeId (closeTab a s)
          in next = filter (\<lambda>tab. id' tab \<noteq> a) (tabs s) \<and>
             active =
               (if i < length next then Some (id' (next ! i))
                else if 0 < i \<and> i - 1 < length next then Some (id' (next ! (i - 1)))
                else if next \<noteq> [] then Some (id' (next ! 0))
                else None) \<and>
             (next \<noteq> [] \<longrightarrow> (\<exists>t \<in> set next. active = Some (id' t))) \<and>
             (next = [] \<longrightarrow> active = None) \<and>
             (distinct (map id' (tabs s)) \<longrightarrow>
                next = take i (tabs s) @ drop (Suc i) (tabs s) \<and>
                (1 < length (tabs s) \<longrightarrow> next \<noteq> [])))"
proof -
  define nxt where "nxt = filter (\<lambda>tab. id' tab \<noteq> a) (tabs s)"
  define active where
    "active = (if i < length nxt then Some (id' (nxt ! i))
                else if 0 < i \<and> i - 1 < length nxt then Some (id' (nxt ! (i - 1)))
                else if nxt \<noteq> [] then Some (id' (nxt ! 0))
                else None)"
  have ex: "list_ex (\<lambda>tab. id' tab = a) (tabs s)"
    using assms(1,2) by (auto simp: list_ex_iff)
  have idx: "findIndex (\<lambda>tab. id' tab = a) (tabs s) = int i"
    by (rule findIndex_eq[OF assms(1)]) (use assms(2,3) in simp_all)
  have c: "closeTab a s = s\<lparr>tabs := nxt, activeId := active\<rparr>"
    by (simp only: closeTab_present[OF ex] idx assms(4) fallback_chain active_def nxt_def) simp
  have t: "tabs (closeTab a s) = nxt" by (simp add: c)
  have v: "activeId (closeTab a s) = active" by (simp add: c)
  have some: "nxt \<noteq> [] \<longrightarrow> (\<exists>t \<in> set nxt. active = Some (id' t))"
  proof
    assume ne: "nxt \<noteq> []"
    consider "i < length nxt" | "\<not> i < length nxt" "0 < i \<and> i - 1 < length nxt"
      | "\<not> i < length nxt" "\<not> (0 < i \<and> i - 1 < length nxt)"
      by linarith
    then show "\<exists>t \<in> set nxt. active = Some (id' t)"
    proof cases
      case 1
      then have "nxt ! i \<in> set nxt" by (rule nth_mem)
      moreover have "active = Some (id' (nxt ! i))" using 1 by (simp add: active_def)
      ultimately show ?thesis by (rule bexI[rotated])
    next
      case 2
      then have "nxt ! (i - 1) \<in> set nxt" by simp
      moreover have "active = Some (id' (nxt ! (i - 1)))" using 2 by (simp add: active_def)
      ultimately show ?thesis by (rule bexI[rotated])
    next
      case 3
      have "nxt ! 0 \<in> set nxt" using ne by simp
      moreover have "active = Some (id' (nxt ! 0))"
        by (simp only: active_def 3 ne if_False if_True not_False_eq_True)
      ultimately show ?thesis by (rule bexI[rotated])
    qed
  qed
  have none: "nxt = [] \<longrightarrow> active = None" by (simp add: active_def)
  have dist: "distinct (map id' (tabs s)) \<longrightarrow>
                nxt = take i (tabs s) @ drop (Suc i) (tabs s) \<and> (1 < length (tabs s) \<longrightarrow> nxt \<noteq> [])"
  proof
    assume d: "distinct (map id' (tabs s))"
    have e: "nxt = take i (tabs s) @ drop (Suc i) (tabs s)"
      unfolding nxt_def assms(2)[symmetric] by (rule filter_distinct_nth[OF d assms(1)])
    have "length nxt = length (tabs s) - 1" using assms(1) by (simp add: e)
    then have "1 < length (tabs s) \<longrightarrow> nxt \<noteq> []" by auto
    with e show "nxt = take i (tabs s) @ drop (Suc i) (tabs s) \<and> (1 < length (tabs s) \<longrightarrow> nxt \<noteq> [])"
      by (rule conjI)
  qed
  show ?thesis
    unfolding Let_def t v
    using nxt_def active_def some none dist by (intro conjI)
qed

theorem closeTab_active_fallback_witness:
  "distinct (map id' (tabs (storeOf [fileDoc ''A'' ''/docs/a.md'' ''a'', fileDoc ''B'' ''/docs/b.md'' ''b'',
       fileDoc ''C'' ''/docs/c.md'' ''c''] (Some ''C'')))) \<and>
   closeTab ''C'' (storeOf [fileDoc ''A'' ''/docs/a.md'' ''a'', fileDoc ''B'' ''/docs/b.md'' ''b'',
       fileDoc ''C'' ''/docs/c.md'' ''c''] (Some ''C''))
   = storeOf [fileDoc ''A'' ''/docs/a.md'' ''a'', fileDoc ''B'' ''/docs/b.md'' ''b''] (Some ''B'') \<and>
   closeTab ''A'' (storeOf [fileDoc ''A'' ''/docs/a.md'' ''a'', fileDoc ''B'' ''/docs/b.md'' ''b'',
       fileDoc ''C'' ''/docs/c.md'' ''c''] (Some ''A''))
   = storeOf [fileDoc ''B'' ''/docs/b.md'' ''b'', fileDoc ''C'' ''/docs/c.md'' ''c''] (Some ''B'') \<and>
   closeTab ''A'' (storeOf [fileDoc ''A'' ''/docs/a.md'' ''a''] (Some ''A'')) = storeOf [] None"
  using closeTab_active_fallback
          [of 2 "storeOf [fileDoc ''A'' ''/docs/a.md'' ''a'', fileDoc ''B'' ''/docs/b.md'' ''b'',
                 fileDoc ''C'' ''/docs/c.md'' ''c''] (Some ''C'')" "''C''"]
        closeTab_active_fallback
          [of 0 "storeOf [fileDoc ''A'' ''/docs/a.md'' ''a'', fileDoc ''B'' ''/docs/b.md'' ''b'',
                 fileDoc ''C'' ''/docs/c.md'' ''c''] (Some ''A'')" "''A''"]
        closeTab_active_fallback
          [of 0 "storeOf [fileDoc ''A'' ''/docs/a.md'' ''a''] (Some ''A'')" "''A''"]
  by (simp add: storeOf_def fileDoc_def closeTab_def findIndex_def js_index_def nullish_or_def
        Let_def)

text \<open>
  Claim C9. Closing a tab whose id is not the active selection leaves the active selection
  as it was.
\<close>

theorem closeTab_other_keeps_active:
  "activeId s \<noteq> Some i \<Longrightarrow> activeId (closeTab i s) = activeId s"
  by (simp add: closeTab_def Let_def)

theorem closeTab_other_keeps_active_witness:
  "activeId (storeOf [fileDoc ''A'' ''/docs/a.md'' ''a'', fileDoc ''B'' ''/docs/b.md'' ''b'',
       fileDoc ''C'' ''/docs/c.md'' ''c''] (Some ''A'')) \<noteq> Some ''B'' \<and>
   activeId (closeTab ''B'' (storeOf [fileDoc ''A'' ''/docs/a.md'' ''a'', fileDoc ''B'' ''/docs/b.md'' ''b'',
       fileDoc ''C'' ''/docs/c.md'' ''c''] (Some ''A''))) = Some ''A'' \<and>
   tabs (closeTab ''B'' (storeOf [fileDoc ''A'' ''/docs/a.md'' ''a'', fileDoc ''B'' ''/docs/b.md'' ''b'',
       fileDoc ''C'' ''/docs/c.md'' ''c''] (Some ''A'')))
   = [fileDoc ''A'' ''/docs/a.md'' ''a'', fileDoc ''C'' ''/docs/c.md'' ''c'']"
  using closeTab_other_keeps_active
          [of "storeOf [fileDoc ''A'' ''/docs/a.md'' ''a'', fileDoc ''B'' ''/docs/b.md'' ''b'',
                 fileDoc ''C'' ''/docs/c.md'' ''c''] (Some ''A'')" "''B''"]
  by (simp add: storeOf_def fileDoc_def closeTab_def findIndex_def Let_def)

section \<open>Properties of link activation\<close>

text \<open>
  The classifier looks at the href with the white space at both ends trimmed off; the
  conditions on the href in the theorems below are the ones the source tests, on the
  trimmed href.
\<close>

lemma activeTab_empty: "tabs s = [] \<Longrightarrow> activeTab s = None"
  by (simp add: activeTab_def js_find_def js_index_def nullish_or_def)

text \<open>
  Claim C10. When no document is open, activating a link does nothing, whatever the href:
  no call is made on the host, the state (tabs, selection, status) is unchanged and the
  click is reported unhandled.
\<close>

theorem handleLinkActivation_no_document:
  "tabs s = [] \<Longrightarrow> handleLinkActivation h hrefv s = (Resolved False, [], s)"
  by (simp add: handleLinkActivation_def activeTab_empty)

theorem handleLinkActivation_no_document_witness:
  "tabs initialState = [] \<and>
   handleLinkActivation exampleHost ''https://example.com/image.png'' initialState
     = (Resolved False, [], initialState)"
  using handleLinkActivation_no_document[of initialState exampleHost "''https://example.com/image.png''"]
  by (simp add: initialState_def)

lemma handleLinkActivation_relative:
  assumes "activeTab s = Some tab"
    and "trim hrefv \<noteq> []"
    and "\<not> startsWith (trim hrefv) ''#''"
    and "\<not> absoluteWebPattern (trim hrefv)"
    and "\<not> schemePattern (trim hrefv)"
  shows "handleLinkActivation h hrefv s =
     (if \<not> isMarkdownLink (trim hrefv) then
        (if kind tab = Url then
           (case urlBase tab of
              None \<Rightarrow> (Resolved False, [], s)
            | Some b \<Rightarrow>
                if b = [] then (Resolved False, [], s)
                else
                  (case newURL h (trim hrefv) b of
                     Inl message \<Rightarrow> (Rejected message, [], s)
                   | Inr destination \<Rightarrow>
                       (case openExternal h destination of
                          Inr u \<Rightarrow> (Resolved True, [OpenExternal destination], s)
                        | Inl message \<Rightarrow> (Rejected message, [OpenExternal destination], s))))
         else (Resolved False, [], s))
      else if \<not> truthy (referenceBase tab) then
        (Resolved True, [],
         s\<lparr>status := Some ''Unable to resolve markdown reference without a base path.''\<rparr>)
      else
        (case openReference h \<lparr>href = trim hrefv, origin = kind tab, base = referenceBase tab\<rparr> of
           Inr resource \<Rightarrow>
             (Resolved True,
              [OpenReference \<lparr>href = trim hrefv, origin = kind tab, base = referenceBase tab\<rparr>],
              addResource [resource] s)
         | Inl message \<Rightarrow>
             (Resolved True,
              [OpenReference \<lparr>href = trim hrefv, origin = kind tab, base = referenceBase tab\<rparr>],
              s\<lparr>status := Some message\<rparr>)))"
  using assms by (simp add: handleLinkActivation_def Let_def)

text \<open>
  Claim C8. A markdown reference that is neither a fragment, nor an absolute web URL, nor
  under another scheme, followed from an active document without a resolution base (the
  base directory of a file, the base URL of a remote document): the status shows an error
  message, no call is made on the host, tabs and selection are unchanged, and the click is
  reported handled.
\<close>

theorem handleLinkActivation_reference_without_base:
  assumes "activeTab s = Some tab"
    and "trim hrefv \<noteq> []"
    and "\<not> startsWith (trim hrefv) ''#''"
    and "\<not> absoluteWebPattern (trim hrefv)"
    and "\<not> schemePattern (trim hrefv)"
    and "isMarkdownLink (trim hrefv)"
    and "\<not> truthy (referenceBase tab)"
  shows "handleLinkActivation h hrefv s =
           (Resolved True, [],
            s\<lparr>status := Some ''Unable to resolve markdown reference without a base path.''\<rparr>) \<and>
         tabs (snd (snd (handleLinkActivation h hrefv s))) = tabs s \<and>
         activeId (snd (snd (handleLinkActivation h hrefv s))) = activeId s"
  using assms by (simp add: handleLinkActivation_relative)

theorem handleLinkActivation_reference_without_base_witness:
  "activeTab (storeOf [bareFileDoc ''A'' ''a.md'' ''a''] (Some ''A''))
     = Some (bareFileDoc ''A'' ''a.md'' ''a'') \<and>
   trim '' ../notes.md#top '' = ''../notes.md#top'' \<and>
   \<not> absoluteWebPattern ''../notes.md#top'' \<and>
   \<not> schemePattern ''../notes.md#top'' \<and>
   isMarkdownLink ''../notes.md#top'' \<and>
   \<not> truthy (referenceBase (bareFileDoc ''A'' ''a.md'' ''a'')) \<and>
   handleLinkActivation exampleHost '' ../notes.md#top '' (storeOf [bareFileDoc ''A'' ''a.md'' ''a''] (Some ''A''))
     = (Resolved True, [],
        (storeOf [bareFileDoc ''A'' ''a.md'' ''a''] (Some ''A''))
          \<lparr>status := Some ''Unable to resolve markdown reference without a base path.''\<rparr>)"
proof -
  have a: "activeTab (storeOf [bareFileDoc ''A'' ''a.md'' ''a''] (Some ''A''))
     = Some (bareFileDoc ''A'' ''a.md'' ''a'')"
    by (simp add: activeTab_def storeOf_def bareFileDoc_def js_find_def nullish_or_def)
  have t: "trim '' ../notes.md#top '' = ''../notes.md#top''"
    by code_simp
  have n: "\<not> absoluteWebPattern ''../notes.md#top''"
    by code_simp
  have c: "\<not> schemePattern ''../notes.md#top''"
    by code_simp
  have m: "isMarkdownLink ''../notes.md#top''"
    by code_simp
  have b: "\<not> truthy (referenceBase (bareFileDoc ''A'' ''a.md'' ''a''))"
    by (simp add: referenceBase_def bareFileDoc_def truthy_def)
  have "handleLinkActivation exampleHost '' ../notes.md#top ''
          (storeOf [bareFileDoc ''A'' ''a.md'' ''a''] (Some ''A''))
     = (Resolved True, [],
        (storeOf [bareFileDoc ''A'' ''a.md'' ''a''] (Some ''A''))
          \<lparr>status := Some ''Unable to resolve markdown reference without a base path.''\<rparr>)"
    using handleLinkActivation_reference_without_base
            [of "storeOf [bareFileDoc ''A'' ''a.md'' ''a''] (Some ''A'')"
                "bareFileDoc ''A'' ''a.md'' ''a''" "'' ../notes.md#top ''" exampleHost]
          a n c m b
    by (simp add: t)
  with a t n c m b show ?thesis by simp
qed

text \<open>
  Claim C5. An href that is not empty, no fragment, no absolute web URL, under no other
  scheme and without a markdown extension. If the active document is remote, the href is
  resolved against the base URL of the document (its base URL, else its final URL, else
  its URL; every remote document the main process builds has one) and the resolved URL
  \<open>d\<close> is handed to external-open: that is the only call, the state is unchanged, and
  the click is reported handled. If the active document is a file, nothing happens: no
  call, no change of state, no error, and the click is reported unhandled; the same holds
  for a remote document that carries no base URL.
\<close>

theorem handleLinkActivation_other_relative:
  assumes "activeTab s = Some tab"
    and "trim hrefv \<noteq> []"
    and "\<not> startsWith (trim hrefv) ''#''"
    and "\<not> absoluteWebPattern (trim hrefv)"
    and "\<not> schemePattern (trim hrefv)"
    and "\<not> isMarkdownLink (trim hrefv)"
  shows "(kind tab = Url \<and> urlBase tab = Some b \<and> b \<noteq> [] \<and> newURL h (trim hrefv) b = Inr d \<longrightarrow>
            fst (snd (handleLinkActivation h hrefv s)) = [OpenExternal d] \<and>
            snd (snd (handleLinkActivation h hrefv s)) = s \<and>
            (openExternal h d = Inr () \<longrightarrow> fst (handleLinkActivation h hrefv s) = Resolved True)) \<and>
         (kind tab = File \<or> (kind tab = Url \<and> \<not> truthy (urlBase tab)) \<longrightarrow>
            handleLinkActivation h hrefv s = (Resolved False, [], s))"
proof (intro conjI impI)
  note r = handleLinkActivation_relative[OF assms(1-5), of h]
  {
    assume u: "kind tab = Url \<and> urlBase tab = Some b \<and> b \<noteq> [] \<and> newURL h (trim hrefv) b = Inr d"
    have e: "handleLinkActivation h hrefv s =
        (case openExternal h d of
           Inr u \<Rightarrow> (Resolved True, [OpenExternal d], s)
         | Inl message \<Rightarrow> (Rejected message, [OpenExternal d], s))"
      using u assms(6) by (simp add: r)
    show "fst (snd (handleLinkActivation h hrefv s)) = [OpenExternal d]"
      by (cases "openExternal h d") (simp_all add: e)
    show "snd (snd (handleLinkActivation h hrefv s)) = s"
      by (cases "openExternal h d") (simp_all add: e)
    assume "openExternal h d = Inr ()"
    then show "fst (handleLinkActivation h hrefv s) = Resolved True"
      by (simp add: e)
  }
  assume f: "kind tab = File \<or> (kind tab = Url \<and> \<not> truthy (urlBase tab))"
  show "handleLinkActivation h hrefv s = (Resolved False, [], s)"
  proof (cases "kind tab")
    case File
    then show ?thesis using assms(6) by (simp add: r)
  next
    case Url
    with f have "\<not> truthy (urlBase tab)" by simp
    then show ?thesis using Url assms(6)
      by (cases "urlBase tab") (simp_all add: r truthy_def)
  qed
qed

theorem handleLinkActivation_other_relative_witness:
  "activeTab (storeOf [urlDoc ''U'' ''https://example.com/docs/readme.md'' ''u''] (Some ''U''))
     = Some (urlDoc ''U'' ''https://example.com/docs/readme.md'' ''u'') \<and>
   trim ''image.png'' = ''image.png'' \<and>
   \<not> absoluteWebPattern ''image.png'' \<and>
   \<not> schemePattern ''image.png'' \<and>
   \<not> isMarkdownLink ''image.png'' \<and>
   urlBase (urlDoc ''U'' ''https://example.com/docs/readme.md'' ''u'')
     = Some ''https://example.com/docs/readme.md'' \<and>
   handleLinkActivation exampleHost ''image.png''
       (storeOf [urlDoc ''U'' ''https://example.com/docs/readme.md'' ''u''] (Some ''U''))
     = (Resolved True, [OpenExternal ''https://example.com/docs/image.png''],
        storeOf [urlDoc ''U'' ''https://example.com/docs/readme.md'' ''u''] (Some ''U'')) \<and>
   activeTab (storeOf [fileDoc ''A'' ''/docs/a.md'' ''a''] (Some ''A''))
     = Some (fileDoc ''A'' ''/docs/a.md'' ''a'') \<and>
   handleLinkActivation exampleHost ''image.png'' (storeOf [fileDoc ''A'' ''/docs/a.md'' ''a''] (Some ''A''))
     = (Resolved False, [], storeOf [fileDoc ''A'' ''/docs/a.md'' ''a''] (Some ''A''))"
proof -
  let ?U = "urlDoc ''U'' ''https://example.com/docs/readme.md'' ''u''"
  let ?A = "fileDoc ''A'' ''/docs/a.md'' ''a''"
  have a: "activeTab (storeOf [?U] (Some ''U'')) = Some ?U"
    by (simp add: activeTab_def storeOf_def urlDoc_def js_find_def nullish_or_def)
  have a': "activeTab (storeOf [?A] (Some ''A'')) = Some ?A"
    by (simp add: activeTab_def storeOf_def fileDoc_def js_find_def nullish_or_def)
  have t: "trim ''image.png'' = ''image.png''"
    by code_simp
  have n: "\<not> absoluteWebPattern ''image.png''"
    by code_simp
  have c: "\<not> schemePattern ''image.png''"
    by code_simp
  have m: "\<not> isMarkdownLink ''image.png''"
    by code_simp
  have b: "urlBase ?U = Some ''https://example.com/docs/readme.md''"
    by (simp add: urlBase_def urlDoc_def nullish_or_def)
  have k: "kind ?U = Url" "kind ?A = File" by (simp_all add: urlDoc_def fileDoc_def)
  have d: "newURL exampleHost ''image.png'' ''https://example.com/docs/readme.md''
             = Inr ''https://example.com/docs/image.png''"
    by (simp add: exampleHost_def)
  have x: "openExternal exampleHost ''https://example.com/docs/image.png'' = Inr ()"
    by (simp add: exampleHost_def)
  have r1: "handleLinkActivation exampleHost ''image.png'' (storeOf [?U] (Some ''U''))
     = (Resolved True, [OpenExternal ''https://example.com/docs/image.png''], storeOf [?U] (Some ''U''))"
    using handleLinkActivation_other_relative
            [of "storeOf [?U] (Some ''U'')" ?U "''image.png''"
                "''https://example.com/docs/readme.md''" exampleHost
                "''https://example.com/docs/image.png''"]
          a n c m b k(1) d x
    by (simp add: t prod_eq_iff)
  have r2: "handleLinkActivation exampleHost ''image.png'' (storeOf [?A] (Some ''A''))
     = (Resolved False, [], storeOf [?A] (Some ''A''))"
    using handleLinkActivation_other_relative
            [of "storeOf [?A] (Some ''A'')" ?A "''image.png''" _ exampleHost]
          a' n c m k(2)
    by (simp add: t)
  from a a' t n c m b r1 r2 show ?thesis by simp
qed

lemma absoluteWebPattern_nonempty:
  assumes "absoluteWebPattern t"
  shows "t \<noteq> [] \<and> \<not> startsWith t ''#''"
proof (cases t)
  case Nil
  with assms show ?thesis by (simp add: absoluteWebPattern_def httpPattern_def)
next
  case (Cons c cs)
  have "c \<noteq> CHR ''#''"
  proof
    assume "c = CHR ''#''"
    with assms Cons show False by (simp add: absoluteWebPattern_def httpPattern_def foldCase_def)
  qed
  with Cons show ?thesis by simp
qed

lemma handleLinkActivation_absolute:
  assumes "activeTab s = Some tab" and "absoluteWebPattern (trim hrefv)"
  shows "handleLinkActivation h hrefv s =
     (if isMarkdownLink (absoluteUrl (trim hrefv)) then
        (case openUrl h (absoluteUrl (trim hrefv)) of
           Inr resource \<Rightarrow>
             (Resolved True, [OpenUrl (absoluteUrl (trim hrefv))], addResource [resource] s)
         | Inl message \<Rightarrow>
             (Resolved True, [OpenUrl (absoluteUrl (trim hrefv))], s\<lparr>status := Some message\<rparr>))
      else
        (case openExternal h (absoluteUrl (trim hrefv)) of
           Inr u \<Rightarrow> (Resolved True, [OpenExternal (absoluteUrl (trim hrefv))], s)
         | Inl message \<Rightarrow> (Rejected message, [OpenExternal (absoluteUrl (trim hrefv))], s)))"
  using assms absoluteWebPattern_nonempty[OF assms(2)]
  by (simp add: handleLinkActivation_def Let_def)

text \<open>
  Claim C4. The classifier matches the scheme of an absolute web URL whatever its case, but
  then tests \<^verbatim>\<open>trimmed.startsWith('http')\<close> with the case as written: an href whose
  scheme is not in lower case is taken for a protocol-relative one and gets \<open>https:\<close> put
  in front. The two examples of the spec behave as claimed; \<open>HTTP://example.com/image.png\<close>
  is handed to external-open as \<open>https:HTTP://example.com/image.png\<close>, and
  \<open>HTTPS://example.com/readme.md\<close> is fetched as \<open>https:HTTPS://example.com/readme.md\<close>,
  which the main process refuses.
\<close>

theorem handleLinkActivation_uppercase_scheme:
  "handleLinkActivation exampleHost ''https://example.com/readme.md''
       (storeOf [fileDoc ''A'' ''/docs/a.md'' ''a''] (Some ''A''))
     = (Resolved True, [OpenUrl ''https://example.com/readme.md''],
        storeOf [fileDoc ''A'' ''/docs/a.md'' ''a'',
                 urlDoc ''N'' ''https://example.com/readme.md'' ''# Readme''] (Some ''N'')) \<and>
   handleLinkActivation exampleHost ''https://example.com/image.png''
       (storeOf [fileDoc ''A'' ''/docs/a.md'' ''a''] (Some ''A''))
     = (Resolved True, [OpenExternal ''https://example.com/image.png''],
        storeOf [fileDoc ''A'' ''/docs/a.md'' ''a''] (Some ''A'')) \<and>
   handleLinkActivation exampleHost ''//example.com/image.png''
       (storeOf [fileDoc ''A'' ''/docs/a.md'' ''a''] (Some ''A''))
     = (Resolved True, [OpenExternal ''https://example.com/image.png''],
        storeOf [fileDoc ''A'' ''/docs/a.md'' ''a''] (Some ''A'')) \<and>
   absoluteWebPattern ''HTTP://example.com/image.png'' \<and>
   handleLinkActivation exampleHost ''HTTP://example.com/image.png''
       (storeOf [fileDoc ''A'' ''/docs/a.md'' ''a''] (Some ''A''))
     = (Resolved True, [OpenExternal ''https:HTTP://example.com/image.png''],
        storeOf [fileDoc ''A'' ''/docs/a.md'' ''a''] (Some ''A'')) \<and>
   absoluteWebPattern ''HTTPS://example.com/readme.md'' \<and>
   fst (snd (handleLinkActivation exampleHost ''HTTPS://example.com/readme.md''
       (storeOf [fileDoc ''A'' ''/docs/a.md'' ''a''] (Some ''A''))))
     = [OpenUrl ''https:HTTPS://example.com/readme.md''] \<and>
   resourceOpenUrl exampleMainHost 0 ''https:HTTPS://example.com/readme.md''
     = Inl ''Only http(s) urls are supported''"
proof -
  let ?S = "storeOf [fileDoc ''A'' ''/docs/a.md'' ''a''] (Some ''A'')"
  have a: "activeTab ?S = Some (fileDoc ''A'' ''/docs/a.md'' ''a'')"
    by (simp add: activeTab_def storeOf_def fileDoc_def js_find_def nullish_or_def)
  have t: "trim ''https://example.com/readme.md'' = ''https://example.com/readme.md''"
    "trim ''https://example.com/image.png'' = ''https://example.com/image.png''"
    "trim ''//example.com/image.png'' = ''//example.com/image.png''"
    "trim ''HTTP://example.com/image.png'' = ''HTTP://example.com/image.png''"
    "trim ''HTTPS://example.com/readme.md'' = ''HTTPS://example.com/readme.md''"
    by code_simp+
  have p: "absoluteWebPattern (trim ''https://example.com/readme.md'')"
    "absoluteWebPattern (trim ''https://example.com/image.png'')"
    "absoluteWebPattern (trim ''//example.com/image.png'')"
    "absoluteWebPattern (trim ''HTTP://example.com/image.png'')"
    "absoluteWebPattern (trim ''HTTPS://example.com/readme.md'')"
    by code_simp+
  have u: "absoluteUrl ''https://example.com/readme.md'' = ''https://example.com/readme.md''"
    "absoluteUrl ''https://example.com/image.png'' = ''https://example.com/image.png''"
    "absoluteUrl ''//example.com/image.png'' = ''https://example.com/image.png''"
    "absoluteUrl ''HTTP://example.com/image.png'' = ''https:HTTP://example.com/image.png''"
    "absoluteUrl ''HTTPS://example.com/readme.md'' = ''https:HTTPS://example.com/readme.md''"
    by (simp_all add: absoluteUrl_def)
  have m: "isMarkdownLink ''https://example.com/readme.md''"
    "\<not> isMarkdownLink ''https://example.com/image.png''"
    "\<not> isMarkdownLink ''https:HTTP://example.com/image.png''"
    "isMarkdownLink ''https:HTTPS://example.com/readme.md''"
    by code_simp+
  have r1: "handleLinkActivation exampleHost ''https://example.com/readme.md'' ?S
     = (Resolved True, [OpenUrl ''https://example.com/readme.md''],
        storeOf [fileDoc ''A'' ''/docs/a.md'' ''a'',
                 urlDoc ''N'' ''https://example.com/readme.md'' ''# Readme''] (Some ''N''))"
    by (simp add: handleLinkActivation_absolute[OF a p(1)] t u m)
       (simp add: t u exampleHost_def storeOf_def
          applyResource_def findIndex_def matchEntry_def fileDoc_def urlDoc_def)
  have r2: "handleLinkActivation exampleHost ''https://example.com/image.png'' ?S
     = (Resolved True, [OpenExternal ''https://example.com/image.png''], ?S)"
    by (simp add: handleLinkActivation_absolute[OF a p(2)] t u m)
       (simp add: t u exampleHost_def)
  have r3: "handleLinkActivation exampleHost ''//example.com/image.png'' ?S
     = (Resolved True, [OpenExternal ''https://example.com/image.png''], ?S)"
    by (simp add: handleLinkActivation_absolute[OF a p(3)] t u m)
       (simp add: t u exampleHost_def)
  have r4: "handleLinkActivation exampleHost ''HTTP://example.com/image.png'' ?S
     = (Resolved True, [OpenExternal ''https:HTTP://example.com/image.png''], ?S)"
    by (simp add: handleLinkActivation_absolute[OF a p(4)] t u m)
       (simp add: t u exampleHost_def)
  have r5: "fst (snd (handleLinkActivation exampleHost ''HTTPS://example.com/readme.md'' ?S))
     = [OpenUrl ''https:HTTPS://example.com/readme.md'']"
    by (simp add: handleLinkActivation_absolute[OF a p(5)] t u m)
       (simp add: t u exampleHost_def)
  have r6: "resourceOpenUrl exampleMainHost 0 ''https:HTTPS://example.com/readme.md''
     = Inl ''Only http(s) urls are supported''"
    by code_simp
  from r1 r2 r3 p(4) r4 p(5) r5 r6 show ?thesis by (simp add: t)
qed

text \<open>
  Claim C6. When the fetch of an operation fails with message \<open>m\<close>, the state afterwards
  is the state before with the status set to \<open>m\<close>, whatever the status was: tabs and
  active selection are untouched. This holds for opening a URL, for the file dialog, for
  following an absolute markdown link and for following a markdown reference, and for a
  failure reported by the main process. A successful fetch is followed by the upsert of
  what was fetched, and an upsert leaves no status message.
\<close>

theorem fetch_failure_only_sets_status:
  "(trim (urlValue s) \<noteq> [] \<and> openUrl h (normalizeUrl (trim (urlValue s))) = Inl m \<longrightarrow>
      handleUrlSubmit h s = ([OpenUrl (normalizeUrl (trim (urlValue s)))], s\<lparr>status := Some m\<rparr>)) \<and>
   (trim (urlValue s) \<noteq> [] \<and> openUrl h (normalizeUrl (trim (urlValue s))) = Inr r \<longrightarrow>
      snd (handleUrlSubmit h s) = (addResource [r] s)\<lparr>urlMode := False, urlValue := []\<rparr>) \<and>
   (openFileDialog h = Inl m \<longrightarrow> handleOpenFile h s = ([OpenFileDialog], s\<lparr>status := Some m\<rparr>)) \<and>
   (openFileDialog h = Inr rs \<and> rs \<noteq> [] \<longrightarrow> snd (handleOpenFile h s) = addResource rs s) \<and>
   (activeTab s = Some tab \<and> absoluteWebPattern (trim hrefv) \<and>
    isMarkdownLink (absoluteUrl (trim hrefv)) \<and> openUrl h (absoluteUrl (trim hrefv)) = Inl m \<longrightarrow>
      handleLinkActivation h hrefv s =
        (Resolved True, [OpenUrl (absoluteUrl (trim hrefv))], s\<lparr>status := Some m\<rparr>)) \<and>
   (activeTab s = Some tab \<and> absoluteWebPattern (trim hrefv) \<and>
    isMarkdownLink (absoluteUrl (trim hrefv)) \<and> openUrl h (absoluteUrl (trim hrefv)) = Inr r \<longrightarrow>
      snd (snd (handleLinkActivation h hrefv s)) = addResource [r] s) \<and>
   (activeTab s = Some tab \<and> trim hrefv \<noteq> [] \<and> \<not> startsWith (trim hrefv) ''#'' \<and>
    \<not> absoluteWebPattern (trim hrefv) \<and> \<not> schemePattern (trim hrefv) \<and>
    isMarkdownLink (trim hrefv) \<and> truthy (referenceBase tab) \<and>
    openReference h \<lparr>href = trim hrefv, origin = kind tab, base = referenceBase tab\<rparr> = Inl m \<longrightarrow>
      handleLinkActivation h hrefv s =
        (Resolved True,
         [OpenReference \<lparr>href = trim hrefv, origin = kind tab, base = referenceBase tab\<rparr>],
         s\<lparr>status := Some m\<rparr>)) \<and>
   (activeTab s = Some tab \<and> trim hrefv \<noteq> [] \<and> \<not> startsWith (trim hrefv) ''#'' \<and>
    \<not> absoluteWebPattern (trim hrefv) \<and> \<not> schemePattern (trim hrefv) \<and>
    isMarkdownLink (trim hrefv) \<and> truthy (referenceBase tab) \<and>
    openReference h \<lparr>href = trim hrefv, origin = kind tab, base = referenceBase tab\<rparr> = Inr r \<longrightarrow>
      snd (snd (handleLinkActivation h hrefv s)) = addResource [r] s) \<and>
   onMessage (ResourceError m) s = s\<lparr>status := Some m\<rparr> \<and>
   tabs (s\<lparr>status := Some m\<rparr>) = tabs s \<and>
   activeId (s\<lparr>status := Some m\<rparr>) = activeId s \<and>
   status (applyResource r (s\<lparr>status := Some m\<rparr>)) = None"
proof -
  have u1: "trim (urlValue s) \<noteq> [] \<and> openUrl h (normalizeUrl (trim (urlValue s))) = Inl m \<longrightarrow>
      handleUrlSubmit h s = ([OpenUrl (normalizeUrl (trim (urlValue s)))], s\<lparr>status := Some m\<rparr>)"
    by (simp add: handleUrlSubmit_def Let_def)
  have u2: "trim (urlValue s) \<noteq> [] \<and> openUrl h (normalizeUrl (trim (urlValue s))) = Inr r \<longrightarrow>
      snd (handleUrlSubmit h s) = (addResource [r] s)\<lparr>urlMode := False, urlValue := []\<rparr>"
    by (simp add: handleUrlSubmit_def Let_def)
  have f1: "openFileDialog h = Inl m \<longrightarrow> handleOpenFile h s = ([OpenFileDialog], s\<lparr>status := Some m\<rparr>)"
    by (simp add: handleOpenFile_def)
  have f2: "openFileDialog h = Inr rs \<and> rs \<noteq> [] \<longrightarrow> snd (handleOpenFile h s) = addResource rs s"
    by (simp add: handleOpenFile_def)
  have a1: "activeTab s = Some tab \<and> absoluteWebPattern (trim hrefv) \<and>
    isMarkdownLink (absoluteUrl (trim hrefv)) \<and> openUrl h (absoluteUrl (trim hrefv)) = Inl m \<longrightarrow>
      handleLinkActivation h hrefv s =
        (Resolved True, [OpenUrl (absoluteUrl (trim hrefv))], s\<lparr>status := Some m\<rparr>)"
    by (simp add: handleLinkActivation_absolute)
  have a2: "activeTab s = Some tab \<and> absoluteWebPattern (trim hrefv) \<and>
    isMarkdownLink (absoluteUrl (trim hrefv)) \<and> openUrl h (absoluteUrl (trim hrefv)) = Inr r \<longrightarrow>
      snd (snd (handleLinkActivation h hrefv s)) = addResource [r] s"
    by (simp add: handleLinkActivation_absolute)
  have r1: "activeTab s = Some tab \<and> trim hrefv \<noteq> [] \<and> \<not> startsWith (trim hrefv) ''#'' \<and>
    \<not> absoluteWebPattern (trim hrefv) \<and> \<not> schemePattern (trim hrefv) \<and>
    isMarkdownLink (trim hrefv) \<and> truthy (referenceBase tab) \<and>
    openReference h \<lparr>href = trim hrefv, origin = kind tab, base = referenceBase tab\<rparr> = Inl m \<longrightarrow>
      handleLinkActivation h hrefv s =
        (Resolved True,
         [OpenReference \<lparr>href = trim hrefv, origin = kind tab, base = referenceBase tab\<rparr>],
         s\<lparr>status := Some m\<rparr>)"
    by (simp add: handleLinkActivation_relative)
  have r2: "activeTab s = Some tab \<and> trim hrefv \<noteq> [] \<and> \<not> startsWith (trim hrefv) ''#'' \<and>
    \<not> absoluteWebPattern (trim hrefv) \<and> \<not> schemePattern (trim hrefv) \<and>
    isMarkdownLink (trim hrefv) \<and> truthy (referenceBase tab) \<and>
    openReference h \<lparr>href = trim hrefv, origin = kind tab, base = referenceBase tab\<rparr> = Inr r \<longrightarrow>
      snd (snd (handleLinkActivation h hrefv s)) = addResource [r] s"
    by (simp add: handleLinkActivation_relative)
  have o: "onMessage (ResourceError m) s = s\<lparr>status := Some m\<rparr>" by simp
  have k: "tabs (s\<lparr>status := Some m\<rparr>) = tabs s" "activeId (s\<lparr>status := Some m\<rparr>) = activeId s"
    by simp_all
  have c: "status (applyResource r (s\<lparr>status := Some m\<rparr>)) = None"
    by (rule applyResource_status)
  from u1 u2 f1 f2 a1 a2 r1 r2 o k c show ?thesis by (intro conjI)
qed

theorem fetch_failure_only_sets_status_witness:
  "handleUrlSubmit exampleHost (staleStore '' example.com/missing.md '')
     = ([OpenUrl ''https://example.com/missing.md''],
        (staleStore '' example.com/missing.md '')
          \<lparr>status := Some ''Failed to load https://example.com/missing.md''\<rparr>) \<and>
   snd (handleUrlSubmit exampleHost (staleStore ''https://example.com/readme.md''))
     = (addResource [urlDoc ''N'' ''https://example.com/readme.md'' ''# Readme'']
          (staleStore ''https://example.com/readme.md''))\<lparr>urlMode := False, urlValue := []\<rparr> \<and>
   handleOpenFile exampleHost (staleStore [])
     = ([OpenFileDialog], (staleStore [])\<lparr>status := Some ''dialog failed''\<rparr>) \<and>
   snd (handleOpenFile (exampleHost\<lparr>openFileDialog := Inr [fileDoc ''B'' ''/docs/b.md'' ''b'']\<rparr>)
          (staleStore []))
     = addResource [fileDoc ''B'' ''/docs/b.md'' ''b''] (staleStore []) \<and>
   handleLinkActivation exampleHost ''https://example.com/other.md'' (staleStore [])
     = (Resolved True, [OpenUrl ''https://example.com/other.md''],
        (staleStore [])\<lparr>status := Some ''Failed to load https://example.com/other.md''\<rparr>) \<and>
   snd (snd (handleLinkActivation exampleHost ''https://example.com/readme.md'' (staleStore [])))
     = addResource [urlDoc ''N'' ''https://example.com/readme.md'' ''# Readme''] (staleStore []) \<and>
   handleLinkActivation exampleHost ''notes.md'' (staleStore [])
     = (Resolved True, [OpenReference \<lparr>href = ''notes.md'', origin = File, base = Some ''/docs''\<rparr>],
        (staleStore [])\<lparr>status := Some ''Missing file''\<rparr>) \<and>
   snd (snd (handleLinkActivation
               (exampleHost\<lparr>openReference := (\<lambda>p. Inr (fileDoc ''R'' ''/docs/notes.md'' ''n''))\<rparr>)
               ''notes.md'' (staleStore [])))
     = addResource [fileDoc ''R'' ''/docs/notes.md'' ''n''] (staleStore []) \<and>
   status (applyResource (fileDoc ''B'' ''/docs/b.md'' ''b'')
             ((staleStore [])\<lparr>status := Some ''dialog failed''\<rparr>)) = None"
proof -
  let ?A = "fileDoc ''A'' ''/docs/a.md'' ''a''"
  let ?B = "fileDoc ''B'' ''/docs/b.md'' ''b''"
  let ?N = "urlDoc ''N'' ''https://example.com/readme.md'' ''# Readme''"
  let ?R = "fileDoc ''R'' ''/docs/notes.md'' ''n''"
  let ?hF = "exampleHost\<lparr>openFileDialog := Inr [?B]\<rparr>"
  let ?hR = "exampleHost\<lparr>openReference := (\<lambda>p. Inr ?R)\<rparr>"
  have a: "activeTab (staleStore []) = Some ?A"
    by (simp add: activeTab_def staleStore_def fileDoc_def js_find_def nullish_or_def)
  have v: "urlValue (staleStore x) = x" for x by (simp add: staleStore_def)
  have t: "trim '' example.com/missing.md '' = ''example.com/missing.md''"
    "trim ''https://example.com/readme.md'' = ''https://example.com/readme.md''"
    "trim ''https://example.com/other.md'' = ''https://example.com/other.md''"
    "trim ''notes.md'' = ''notes.md''"
    by code_simp+
  have nz: "normalizeUrl ''example.com/missing.md'' = ''https://example.com/missing.md''"
    "normalizeUrl ''https://example.com/readme.md'' = ''https://example.com/readme.md''"
    by code_simp+
  have p: "absoluteWebPattern ''https://example.com/readme.md''"
    "absoluteWebPattern ''https://example.com/other.md''"
    "\<not> absoluteWebPattern ''notes.md''" "\<not> schemePattern ''notes.md''"
    by code_simp+
  have u: "absoluteUrl ''https://example.com/readme.md'' = ''https://example.com/readme.md''"
    "absoluteUrl ''https://example.com/other.md'' = ''https://example.com/other.md''"
    by (simp_all add: absoluteUrl_def)
  have md: "isMarkdownLink ''https://example.com/readme.md''"
    "isMarkdownLink ''https://example.com/other.md''" "isMarkdownLink ''notes.md''"
    by code_simp+
  have b: "referenceBase ?A = Some ''/docs''" "kind ?A = File"
    by (simp_all add: referenceBase_def fileDoc_def)
  have o: "openUrl exampleHost ''https://example.com/missing.md''
             = Inl ''Failed to load https://example.com/missing.md''"
    "openUrl exampleHost ''https://example.com/other.md''
             = Inl ''Failed to load https://example.com/other.md''"
    "openUrl exampleHost ''https://example.com/readme.md'' = Inr ?N"
    "openFileDialog exampleHost = Inl ''dialog failed''"
    "openFileDialog ?hF = Inr [?B]"
    "openReference exampleHost \<lparr>href = ''notes.md'', origin = File, base = Some ''/docs''\<rparr>
       = Inl ''Missing file''"
    "openReference ?hR \<lparr>href = ''notes.md'', origin = File, base = Some ''/docs''\<rparr> = Inr ?R"
    by (simp_all add: exampleHost_def)
  note f = t v nz p u md b o truthy_def
  have w1: "handleUrlSubmit exampleHost (staleStore '' example.com/missing.md '')
     = ([OpenUrl ''https://example.com/missing.md''],
        (staleStore '' example.com/missing.md '')
          \<lparr>status := Some ''Failed to load https://example.com/missing.md''\<rparr>)"
    using fetch_failure_only_sets_status
            [where s = "staleStore '' example.com/missing.md ''" and h = exampleHost
               and m = "''Failed to load https://example.com/missing.md''"]
    by (simp add: f)
  have w2: "snd (handleUrlSubmit exampleHost (staleStore ''https://example.com/readme.md''))
     = (addResource [?N] (staleStore ''https://example.com/readme.md''))
         \<lparr>urlMode := False, urlValue := []\<rparr>"
    using fetch_failure_only_sets_status
            [where s = "staleStore ''https://example.com/readme.md''" and h = exampleHost and r = ?N]
    by (simp add: f)
  have w3: "handleOpenFile exampleHost (staleStore [])
     = ([OpenFileDialog], (staleStore [])\<lparr>status := Some ''dialog failed''\<rparr>)"
    using fetch_failure_only_sets_status
            [where s = "staleStore []" and h = exampleHost and m = "''dialog failed''"]
    by (simp add: f)
  have w4: "snd (handleOpenFile ?hF (staleStore [])) = addResource [?B] (staleStore [])"
    using fetch_failure_only_sets_status[where s = "staleStore []" and h = ?hF and rs = "[?B]"]
    by (simp add: f)
  have w5: "handleLinkActivation exampleHost ''https://example.com/other.md'' (staleStore [])
     = (Resolved True, [OpenUrl ''https://example.com/other.md''],
        (staleStore [])\<lparr>status := Some ''Failed to load https://example.com/other.md''\<rparr>)"
    using fetch_failure_only_sets_status
            [where s = "staleStore []" and h = exampleHost and tab = ?A
               and hrefv = "''https://example.com/other.md''"
               and m = "''Failed to load https://example.com/other.md''"]
          a
    by (simp add: f)
  have w6: "snd (snd (handleLinkActivation exampleHost ''https://example.com/readme.md'' (staleStore [])))
     = addResource [?N] (staleStore [])"
    using fetch_failure_only_sets_status
            [where s = "staleStore []" and h = exampleHost and tab = ?A
               and hrefv = "''https://example.com/readme.md''" and r = ?N]
          a
    by (simp add: f)
  have w7: "handleLinkActivation exampleHost ''notes.md'' (staleStore [])
     = (Resolved True, [OpenReference \<lparr>href = ''notes.md'', origin = File, base = Some ''/docs''\<rparr>],
        (staleStore [])\<lparr>status := Some ''Missing file''\<rparr>)"
    using fetch_failure_only_sets_status
            [where s = "staleStore []" and h = exampleHost and tab = ?A
               and hrefv = "''notes.md''" and m = "''Missing file''"]
          a
    by (simp add: f)
  have w8: "snd (snd (handleLinkActivation ?hR ''notes.md'' (staleStore [])))
     = addResource [?R] (staleStore [])"
    using fetch_failure_only_sets_status
            [where s = "staleStore []" and h = ?hR and tab = ?A and hrefv = "''notes.md''" and r = ?R]
          a
    by (simp add: f)
  have w9: "status (applyResource ?B ((staleStore [])\<lparr>status := Some ''dialog failed''\<rparr>)) = None"
    using fetch_failure_only_sets_status
            [where s = "staleStore []" and r = ?B and m = "''dialog failed''"]
    by simp
  from w1 w2 w3 w4 w5 w6 w7 w8 w9 show ?thesis by (intro conjI)
qed

section \<open>Properties of the launch arguments\<close>

lemma deliverArgs_append:
  "deliverArgs h (xs @ ys) m = deliverArgs h ys (deliverArgs h xs m)"
  by (induction xs arbitrary: m) simp_all

lemma deliverArg_ignored:
  "\<not> httpPattern arg \<Longrightarrow> \<not> isMarkdownPath arg \<Longrightarrow> deliverArg h arg m = m"
  by (simp add: deliverArg_def)

text \<open>
  Claim C7, as amended. An entry of the argument list that neither starts like an http(s)
  URL nor ends in a markdown extension (before any \<open>?\<close> or \<open>#\<close>, whatever the case) is
  ignored: it starts no load, sends no message to the renderer and queues nothing, and the
  whole run is the one of the list without it. Whether a path exists is not looked at.
\<close>

theorem parseArgTargets_ignores_entry:
  assumes "\<not> httpPattern arg"
    and "\<not> isMarkdownPath arg"
    and "sliceFrom h \<le> length pre"
  shows "deliverArg h arg m = m \<and>
         parseArgTargets h (pre @ arg # post) m = parseArgTargets h (pre @ post) m"
proof
  show "deliverArg h arg m = m" by (rule deliverArg_ignored[OF assms(1,2)])
  let ?keep = "\<lambda>arg. \<not> startsWith arg ''--''"
  let ?a = "filter ?keep (drop (sliceFrom h) pre)"
  let ?b = "filter ?keep post"
  have d1: "drop (sliceFrom h) (pre @ arg # post) = drop (sliceFrom h) pre @ arg # post"
    using assms(3) by simp
  have d2: "drop (sliceFrom h) (pre @ post) = drop (sliceFrom h) pre @ post"
    using assms(3) by simp
  have "deliverArgs h (filter ?keep [arg]) (deliverArgs h ?a m) = deliverArgs h ?a m"
    by (simp add: deliverArg_ignored[OF assms(1,2)])
  then have "deliverArgs h (?a @ filter ?keep [arg] @ ?b) m = deliverArgs h (?a @ ?b) m"
    by (simp only: deliverArgs_append)
  moreover have "filter ?keep (drop (sliceFrom h) pre @ arg # post) = ?a @ filter ?keep [arg] @ ?b"
    by simp
  moreover have "filter ?keep (drop (sliceFrom h) pre @ post) = ?a @ ?b" by simp
  ultimately show "parseArgTargets h (pre @ arg # post) m = parseArgTargets h (pre @ post) m"
    by (simp only: parseArgTargets_def Let_def d1 d2)
qed

theorem parseArgTargets_ignores_entry_witness:
  "\<not> httpPattern ''notes.txt'' \<and> \<not> isMarkdownPath ''notes.txt'' \<and>
   sliceFrom exampleMainHost \<le> length [''markdownviewer''] \<and>
   parseArgTargets exampleMainHost ([''markdownviewer''] @ ''notes.txt'' # [''--verbose'']) readyMain
     = readyMain"
proof -
  have a: "\<not> httpPattern ''notes.txt''" by code_simp
  have b: "\<not> isMarkdownPath ''notes.txt''"
    by code_simp
  have c: "sliceFrom exampleMainHost \<le> length [''markdownviewer'']"
    by (simp add: sliceFrom_def exampleMainHost_def)
  have "parseArgTargets exampleMainHost ([''markdownviewer''] @ [''--verbose'']) readyMain = readyMain"
    by (simp add: parseArgTargets_def sliceFrom_def exampleMainHost_def)
  with parseArgTargets_ignores_entry[OF a b c, where post = "[''--verbose'']" and m = readyMain] a b c
  show ?thesis by simp
qed

text \<open>
  Claim C7 as stated fails for a path that ends in a markdown extension and does not exist:
  the file is read all the same, and the failure is sent to the renderer, which shows it
  as its status message.
\<close>

theorem parseArgTargets_missing_file_counterexample:
  "\<not> httpPattern ''missing.md'' \<and>
   \<not> (isMarkdownPath ''missing.md'' \<and> pathExists exampleMainHost ''missing.md'') \<and>
   parseArgTargets exampleMainHost [''markdownviewer'', ''missing.md''] readyMain
     = readyMain
         \<lparr>sent := [ResourceError ''ENOENT: no such file or directory, open /home/user/missing.md''],
          started := [ReadMarkdownFile ''missing.md'']\<rparr> \<and>
   status (onMessage
             (ResourceError ''ENOENT: no such file or directory, open /home/user/missing.md'')
             initialState)
     = Some ''ENOENT: no such file or directory, open /home/user/missing.md''"
proof -
  have a: "\<not> httpPattern ''missing.md''" by code_simp
  have b: "isMarkdownPath ''missing.md''"
    by code_simp
  have c: "\<not> pathExists exampleMainHost ''missing.md''"
    by (simp add: pathExists_def exampleMainHost_def)
  have d: "parseArgTargets exampleMainHost [''markdownviewer'', ''missing.md''] readyMain
     = readyMain
         \<lparr>sent := [ResourceError ''ENOENT: no such file or directory, open /home/user/missing.md''],
          started := [ReadMarkdownFile ''missing.md'']\<rparr>"
    using a b
    by (simp add: parseArgTargets_def sliceFrom_def deliverArg_def deliverResource_def
          readMarkdownFile_def exampleMainHost_def readyMain_def)
  from a c d show ?thesis by simp
qed

end
